theory Spec2Isabelle
  imports Main "HOL-Library.Word"
begin

section \<open>Python values and exceptions\<close>

text \<open>
  Token payloads, persisted token records, notification payloads and trust references are
  Python dictionaries of strings, lists and nested dictionaries. \<open>JTime\<close> is a naive UTC
  \<open>datetime\<close>, counted in microseconds.
\<close>

datatype json =
    JNone
  | JBool bool
  | JInt int
  | JStr string
  | JTime int
  | JList "json list"
  | JDict "(string \<times> json) list"

text \<open>
  The exceptions that can reach a caller of the token provider manager. \<open>TokenNotFound\<close>
  is keystone's \<open>exception.TokenNotFound\<close> (a \<open>NotFound\<close>), \<open>Unauthorized\<close> is
  \<open>exception.Unauthorized\<close>; \<open>KeyError\<close>, \<open>TypeError\<close>, \<open>AttributeError\<close> and
  \<open>ValueError\<close> are the interpreter's own; \<open>Conflict\<close> and \<open>BackendError\<close> stand for
  what a storage backend may raise.
\<close>

datatype error =
    TokenNotFound
  | Unauthorized
  | UnsupportedTokenVersionException
  | Conflict
  | KeyError
  | TypeError
  | AttributeError
  | ValueError
  | BackendError string

definition bind_result :: "error + 'a \<Rightarrow> ('a \<Rightarrow> error + 'b) \<Rightarrow> error + 'b" where
  "bind_result m f = (case m of Inl e \<Rightarrow> Inl e | Inr x \<Rightarrow> f x)"

text \<open>\<open>x[k]\<close> with a string key: only a dictionary can be subscripted by a string.\<close>

fun getitem :: "json \<Rightarrow> string \<Rightarrow> error + json" where
  "getitem (JDict d) k = (case map_of d k of None \<Rightarrow> Inl KeyError | Some v \<Rightarrow> Inr v)"
| "getitem _ k = Inl TypeError"

text \<open>\<open>x.get(k, default)\<close>: only a dictionary has the method.\<close>

fun dict_get :: "json \<Rightarrow> string \<Rightarrow> json \<Rightarrow> error + json" where
  "dict_get (JDict d) k dflt = Inr (case map_of d k of None \<Rightarrow> dflt | Some v \<Rightarrow> v)"
| "dict_get _ k dflt = Inl AttributeError"

text \<open>Truth value of an object, as \<open>if x\<close> and \<open>not x\<close> test it.\<close>

fun truthy :: "json \<Rightarrow> bool" where
  "truthy JNone = False"
| "truthy (JBool b) = b"
| "truthy (JInt i) = (i \<noteq> 0)"
| "truthy (JStr s) = (s \<noteq> [])"
| "truthy (JTime t) = True"
| "truthy (JList xs) = (xs \<noteq> [])"
| "truthy (JDict d) = (d \<noteq> [])"

fun is_substring :: "string \<Rightarrow> string \<Rightarrow> bool" where
  "is_substring p [] = (p = [])"
| "is_substring p (c # cs) = (take (length p) (c # cs) = p \<or> is_substring p cs)"

text \<open>\<open>k in x\<close> for a string \<open>k\<close>: a key of a dictionary, an element of a list, a substring
  of a string; anything else is not iterable.\<close>

fun contains :: "string \<Rightarrow> json \<Rightarrow> error + bool" where
  "contains k (JDict d) = Inr (map_of d k \<noteq> None)"
| "contains k (JList xs) = Inr (JStr k \<in> set xs)"
| "contains k (JStr s) = Inr (is_substring k s)"
| "contains k _ = Inl TypeError"

text \<open>\<open>d[k] = v\<close> on a dictionary: replace the value of an existing key, or add the key.\<close>

fun dict_set :: "(string \<times> json) list \<Rightarrow> string \<Rightarrow> json \<Rightarrow> (string \<times> json) list" where
  "dict_set [] k v = [(k, v)]"
| "dict_set ((k', v') # d) k v = (if k' = k then (k, v) # d else (k', v') # dict_set d k v)"

section \<open>Collaborators of the manager\<close>

text \<open>The supported token versions, \<open>token_model.V2\<close> and \<open>token_model.V3\<close>.\<close>

definition V2 :: string where "V2 = ''v2.0''"
definition V3 :: string where "V3 = ''v3.0''"

text \<open>The arguments of \<open>issue_v3_token\<close>; \<open>None\<close> is \<open>JNone\<close>.\<close>

record issue_args =
  user_id :: json
  method_names :: json
  expires_at :: json
  project_id :: json
  is_domain :: json
  domain_id :: json
  auth_context :: json
  trust :: json
  metadata_ref :: json
  include_catalog :: json
  parent_audit_id :: json

text \<open>The token provider backend (class \<open>Provider\<close>): what \<open>self.driver\<close> offers.\<close>

record provider =
  driver_needs_persistence :: bool
  driver_get_token_version :: "json \<Rightarrow> error + string"
  driver_issue_v3_token :: "issue_args \<Rightarrow> error + string \<times> json"
  driver_validate_v2_token :: "json \<Rightarrow> error + json"
  driver_validate_non_persistent_token :: "string \<Rightarrow> error + json"
  driver_validate_v3_token :: "json \<Rightarrow> error + json"

text \<open>
  The token persistence manager (\<open>self._persistence\<close>) over a store of type \<open>'p\<close>. A call
  that raises leaves the store as it was.
\<close>

record 'p persistence_manager =
  create_token :: "'p \<Rightarrow> string \<Rightarrow> json \<Rightarrow> error + 'p"
  get_token :: "'p \<Rightarrow> string \<Rightarrow> error + json"
  delete_token :: "'p \<Rightarrow> string \<Rightarrow> error + 'p"
  delete_tokens :: "'p \<Rightarrow> json \<Rightarrow> json \<Rightarrow> json \<Rightarrow> error + 'p"
  delete_tokens_for_user :: "'p \<Rightarrow> json \<Rightarrow> json \<Rightarrow> error + 'p"
  delete_tokens_for_domain :: "'p \<Rightarrow> json \<Rightarrow> error + 'p"
  delete_tokens_for_users :: "'p \<Rightarrow> json \<Rightarrow> json \<Rightarrow> error + 'p"

text \<open>
  The revocation manager (\<open>self.revoke_api\<close>) over a registry of type \<open>'r\<close>;
  \<open>build_token_values*\<close> are the functions of \<open>revoke_api.model\<close>.
\<close>

record 'r revoke_manager =
  build_token_values_v2 :: "json \<Rightarrow> string \<Rightarrow> error + json"
  build_token_values :: "json \<Rightarrow> error + json"
  check_token :: "'r \<Rightarrow> json \<Rightarrow> error + unit"
  revoke_by_audit_id :: "'r \<Rightarrow> json \<Rightarrow> error + 'r"
  revoke_by_audit_chain_id :: "'r \<Rightarrow> json \<Rightarrow> json \<Rightarrow> json \<Rightarrow> error + 'r"

text \<open>What \<open>revoke_token\<close> reads from a \<open>token_model.KeystoneToken\<close>.\<close>

record keystone_token =
  project_scoped :: bool
  kt_project_id :: json
  domain_scoped :: bool
  kt_domain_id :: json
  audit_id :: json
  audit_chain_id :: json

text \<open>
  The manager instance: its driver and injected managers, the configuration options it
  reads (\<open>CONF.token.revoke_by_id\<close>, \<open>CONF.token.cache_on_issue\<close>,
  \<open>CONF.identity.default_domain_id\<close>), and the library functions it calls:
  \<open>utils.generate_unique_id\<close>, \<open>V2TokenDataHelper.v3_to_v2_token\<close>,
  \<open>timeutils.normalize_time (timeutils.parse_isotime s)\<close> (\<open>None\<close> when the string does
  not parse), the \<open>KeystoneToken\<close> constructor, \<open>trust_api.get_trust\<close> and
  \<open>assignment_api.list_user_ids_for_project\<close>.
\<close>

record ('p, 'r) manager =
  driver :: provider
  persistence :: "'p persistence_manager"
  revoke_api :: "'r revoke_manager"
  revoke_by_id :: bool
  cache_on_issue :: bool
  default_domain_id :: string
  generate_unique_id :: "string \<Rightarrow> string"
  v3_to_v2_token :: "json \<Rightarrow> string \<Rightarrow> error + json"
  parse_isotime :: "string \<Rightarrow> int option"
  KeystoneToken :: "string \<Rightarrow> json \<Rightarrow> error + keystone_token"
  get_trust :: "json \<Rightarrow> error + json"
  list_user_ids_for_project :: "json \<Rightarrow> error + json"

section \<open>State\<close>

text \<open>The four memoized methods that share the cache region \<open>TOKENS_REGION\<close>.\<close>

datatype memo =
    Memo_validate_token
  | Memo_validate_v2_token
  | Memo_validate_v3_token
  | Memo_validate_non_persistent_token

text \<open>
  The state the manager works on: the token store, the revocation registry and the cache
  region, whose entries are keyed by the memoized method and its argument.
  \<open>revocation_checks\<close> is a log: \<open>check_revocation\<close> appends the token it is called on.
\<close>

record ('p, 'r) state =
  store :: 'p
  registry :: 'r
  region :: "memo \<times> json \<Rightarrow> json option"
  revocation_checks :: "json list"

type_synonym ('a, 'p, 'r) action = "('p, 'r) state \<Rightarrow> (error + 'a) \<times> ('p, 'r) state"

text \<open>
  Modelled from the spec: the memoization decorator \<open>MEMOIZE_TOKENS\<close> of
  \<open>keystone.common.cache\<close>, which is not part of the sources at hand. A call is keyed by
  the method and its argument; a cached value is returned without calling the method, a
  computed value is cached, an exception is not.
\<close>

definition memoize ::
  "memo \<Rightarrow> ('a \<Rightarrow> json) \<Rightarrow> ('a \<Rightarrow> (json, 'p, 'r) action) \<Rightarrow> 'a \<Rightarrow> (json, 'p, 'r) action" where
  "memoize fn key f arg st =
     (case region st (fn, key arg) of
        Some v \<Rightarrow> (Inr v, st)
      | None \<Rightarrow>
          (case f arg st of
             (Inl e, st') \<Rightarrow> (Inl e, st')
           | (Inr v, st') \<Rightarrow> (Inr v, st'\<lparr>region := (region st')((fn, key arg) \<mapsto> v)\<rparr>)))"

text \<open>\<open>method.set(value, TOKENS_REGION, key)\<close>: seed the cache of a memoized method.\<close>

definition memo_set :: "memo \<Rightarrow> json \<Rightarrow> json \<Rightarrow> ('p, 'r) state \<Rightarrow> ('p, 'r) state" where
  "memo_set fn v k st = st\<lparr>region := (region st)((fn, k) \<mapsto> v)\<rparr>"

text \<open>\<open>TOKENS_REGION.invalidate()\<close>: every entry of the region is gone.\<close>

definition region_invalidate :: "('p, 'r) state \<Rightarrow> ('p, 'r) state" where
  "region_invalidate st = st\<lparr>region := (\<lambda>k. None)\<rparr>"

section \<open>Validation\<close>

text \<open>\<open>except exception.Unauthorized: raise exception.TokenNotFound\<close>.\<close>

definition unauthorized_to_not_found :: "error + 'a \<Rightarrow> error + 'a" where
  "unauthorized_to_not_found r =
     (case r of Inl e \<Rightarrow> Inl (if e = Unauthorized then TokenNotFound else e) | Inr x \<Rightarrow> Inr x)"

text \<open>\<open>Manager.check_revocation_v2\<close>: only the \<open>KeyError\<close> becomes \<open>TokenNotFound\<close>.\<close>

definition check_revocation_v2 :: "('p, 'r) manager \<Rightarrow> json \<Rightarrow> (unit, 'p, 'r) action" where
  "check_revocation_v2 self token st =
     (case getitem token ''access'' of
        Inl e \<Rightarrow> (Inl (if e = KeyError then TokenNotFound else e), st)
      | Inr token_data \<Rightarrow>
          (bind_result
             (build_token_values_v2 (revoke_api self) token_data (default_domain_id self))
             (\<lambda>token_values. check_token (revoke_api self) (registry st) token_values), st))"

text \<open>\<open>Manager.check_revocation_v3\<close>.\<close>

definition check_revocation_v3 :: "('p, 'r) manager \<Rightarrow> json \<Rightarrow> (unit, 'p, 'r) action" where
  "check_revocation_v3 self token st =
     (case getitem token ''token'' of
        Inl e \<Rightarrow> (Inl (if e = KeyError then TokenNotFound else e), st)
      | Inr token_data \<Rightarrow>
          (bind_result
             (build_token_values (revoke_api self) token_data)
             (\<lambda>token_values. check_token (revoke_api self) (registry st) token_values), st))"

text \<open>\<open>Manager.check_revocation\<close>; the call is logged in \<open>revocation_checks\<close>.\<close>

definition check_revocation :: "('p, 'r) manager \<Rightarrow> json \<Rightarrow> (unit, 'p, 'r) action" where
  "check_revocation self token st =
     (let st' = st\<lparr>revocation_checks := revocation_checks st @ [token]\<rparr> in
      case driver_get_token_version (driver self) token of
        Inl e \<Rightarrow> (Inl e, st')
      | Inr version \<Rightarrow>
          if version = V2 then check_revocation_v2 self token st'
          else check_revocation_v3 self token st')"

text \<open>
  The \<open>try\<close> block of \<open>Manager._is_valid_token\<close>: the expiry, read from where a V3 or a
  V2 token keeps it.
\<close>

definition token_expiry :: "(string \<Rightarrow> int option) \<Rightarrow> json \<Rightarrow> error + int" where
  "token_expiry parse token =
     bind_result (dict_get token ''access'' JNone) (\<lambda>access.
     bind_result (dict_get token ''token'' access) (\<lambda>token_data.
     bind_result (dict_get token_data ''expires'' JNone) (\<lambda>expires.
     bind_result (dict_get token_data ''expires_at'' expires) (\<lambda>expires_at.
     bind_result
       (if \<not> truthy expires_at
        then bind_result (getitem token_data ''token'') (\<lambda>t. getitem t ''expires'')
        else Inr expires_at) (\<lambda>expires_at.
     case expires_at of
       JStr s \<Rightarrow> (case parse s of None \<Rightarrow> Inl ValueError | Some expiry \<Rightarrow> Inr expiry)
     | _ \<Rightarrow> Inl ValueError)))))"

text \<open>\<open>Manager._is_valid_token\<close>, at the current time \<open>current_time\<close>.\<close>

definition priv_is_valid_token ::
  "('p, 'r) manager \<Rightarrow> int \<Rightarrow> json \<Rightarrow> (unit, 'p, 'r) action" where
  "priv_is_valid_token self current_time token st =
     (case token_expiry (parse_isotime self) token of
        Inl e \<Rightarrow> (Inl TokenNotFound, st)
      | Inr expiry \<Rightarrow>
          if current_time < expiry then check_revocation self token st
          else (Inl TokenNotFound, st))"

text \<open>\<open>Manager._token_belongs_to\<close>; \<open>belongs_to\<close> is \<open>None\<close> or a string.\<close>

definition priv_token_belongs_to :: "json \<Rightarrow> string option \<Rightarrow> error + unit" where
  "priv_token_belongs_to token belongs_to =
     (case belongs_to of
        None \<Rightarrow> Inr ()
      | Some b \<Rightarrow>
          if b = [] then Inr ()
          else
            bind_result (getitem token ''access'') (\<lambda>access.
            bind_result (getitem access ''token'') (\<lambda>token_data.
            bind_result (contains ''tenant'' token_data) (\<lambda>has_tenant.
            if \<not> has_tenant then Inl Unauthorized
            else
              bind_result (getitem token_data ''tenant'') (\<lambda>tenant.
              bind_result (getitem tenant ''id'') (\<lambda>tenant_id.
              if tenant_id \<noteq> JStr b then Inl Unauthorized else Inr ()))))))"

text \<open>The body of \<open>Manager._validate_token\<close>, under its decorator.\<close>

definition validate_token_body :: "('p, 'r) manager \<Rightarrow> string \<Rightarrow> (json, 'p, 'r) action" where
  "validate_token_body self token_id st =
     (if token_id = [] then (Inl TokenNotFound, st)
      else if \<not> driver_needs_persistence (driver self) then
        (unauthorized_to_not_found
           (driver_validate_non_persistent_token (driver self) token_id), st)
      else
        (case unauthorized_to_not_found (get_token (persistence self) (store st) token_id) of
           Inl e \<Rightarrow> (Inl e, st)
         | Inr token_ref \<Rightarrow>
             (case unauthorized_to_not_found (driver_get_token_version (driver self) token_ref) of
                Inl e \<Rightarrow> (Inl e, st)
              | Inr version \<Rightarrow>
                  if version = V3 then
                    (unauthorized_to_not_found
                       (driver_validate_v3_token (driver self) token_ref), st)
                  else if version = V2 then
                    (driver_validate_v2_token (driver self) token_ref, st)
                  else (Inl UnsupportedTokenVersionException, st))))"

text \<open>\<open>Manager._validate_token\<close>, \<open>Manager._validate_v2_token\<close>,
  \<open>Manager._validate_v3_token\<close> and \<open>Manager.validate_non_persistent_token\<close>: the
  memoized methods.\<close>

definition priv_validate_token :: "('p, 'r) manager \<Rightarrow> string \<Rightarrow> (json, 'p, 'r) action" where
  "priv_validate_token self =
     memoize Memo_validate_token JStr (validate_token_body self)"

definition priv_validate_v2_token :: "('p, 'r) manager \<Rightarrow> json \<Rightarrow> (json, 'p, 'r) action" where
  "priv_validate_v2_token self =
     memoize Memo_validate_v2_token (\<lambda>token_ref. token_ref)
       (\<lambda>token_ref st. (driver_validate_v2_token (driver self) token_ref, st))"

definition priv_validate_v3_token :: "('p, 'r) manager \<Rightarrow> json \<Rightarrow> (json, 'p, 'r) action" where
  "priv_validate_v3_token self =
     memoize Memo_validate_v3_token (\<lambda>token_ref. token_ref)
       (\<lambda>token_ref st. (driver_validate_v3_token (driver self) token_ref, st))"

definition validate_non_persistent_token ::
  "('p, 'r) manager \<Rightarrow> string \<Rightarrow> (json, 'p, 'r) action" where
  "validate_non_persistent_token self =
     memoize Memo_validate_non_persistent_token JStr
       (\<lambda>token_id st. (driver_validate_non_persistent_token (driver self) token_id, st))"

text \<open>\<open>Manager.validate_token\<close>, at the current time \<open>now\<close>.\<close>

definition validate_token ::
  "('p, 'r) manager \<Rightarrow> int \<Rightarrow> string \<Rightarrow> string option \<Rightarrow> (json, 'p, 'r) action" where
  "validate_token self now token_id belongs_to st =
     (let unique_id = generate_unique_id self token_id in
      case priv_validate_token self unique_id st of
        (Inl e, st1) \<Rightarrow> (Inl e, st1)
      | (Inr token, st1) \<Rightarrow>
          (case priv_token_belongs_to token belongs_to of
             Inl e \<Rightarrow> (Inl e, st1)
           | Inr _ \<Rightarrow>
               (case priv_is_valid_token self now token st1 of
                  (Inl e, st2) \<Rightarrow> (Inl e, st2)
                | (Inr _, st2) \<Rightarrow> (Inr token, st2))))"

text \<open>\<open>Manager.validate_v2_token\<close>, lines 232 to 250: from the store through
  \<open>_validate_v2_token\<close>, or from the token id through \<open>validate_non_persistent_token\<close>
  and the conversion to the V2 shape.\<close>

definition resolve_v2_token :: "('p, 'r) manager \<Rightarrow> string \<Rightarrow> (json, 'p, 'r) action" where
  "resolve_v2_token self token_id st =
     (if driver_needs_persistence (driver self) then
        (let unique_id = generate_unique_id self token_id in
         case get_token (persistence self) (store st) unique_id of
           Inl e \<Rightarrow> (Inl e, st)
         | Inr token_ref \<Rightarrow> priv_validate_v2_token self token_ref st)
      else
        (case validate_non_persistent_token self token_id st of
           (Inl e, st1) \<Rightarrow> (Inl e, st1)
         | (Inr v3_token_ref, st1) \<Rightarrow> (v3_to_v2_token self v3_token_ref token_id, st1)))"

text \<open>\<open>Manager.validate_v2_token\<close>.\<close>

definition validate_v2_token ::
  "('p, 'r) manager \<Rightarrow> int \<Rightarrow> string \<Rightarrow> string option \<Rightarrow> (json, 'p, 'r) action" where
  "validate_v2_token self now token_id belongs_to st =
     (case resolve_v2_token self token_id st of
        (Inl e, st1) \<Rightarrow> (Inl e, st1)
      | (Inr token, st1) \<Rightarrow>
          (case priv_token_belongs_to token belongs_to of
             Inl e \<Rightarrow> (Inl e, st1)
           | Inr _ \<Rightarrow>
               (case priv_is_valid_token self now token st1 of
                  (Inl e, st2) \<Rightarrow> (Inl e, st2)
                | (Inr _, st2) \<Rightarrow> (Inr token, st2))))"

text \<open>\<open>Manager.validate_v3_token\<close>, lines 281 to 288: from the token id through
  \<open>validate_non_persistent_token\<close>, or from the store through \<open>_validate_v3_token\<close>.\<close>

definition resolve_v3_token :: "('p, 'r) manager \<Rightarrow> string \<Rightarrow> (json, 'p, 'r) action" where
  "resolve_v3_token self token_id st =
     (if \<not> driver_needs_persistence (driver self) then
        validate_non_persistent_token self token_id st
      else
        (let unique_id = generate_unique_id self token_id in
         case get_token (persistence self) (store st) unique_id of
           Inl e \<Rightarrow> (Inl e, st)
         | Inr token_ref \<Rightarrow> priv_validate_v3_token self token_ref st))"

text \<open>\<open>Manager.validate_v3_token\<close>: the whole body after the first test is in the
  \<open>try\<close>, so an \<open>Unauthorized\<close> from any step leaves as \<open>TokenNotFound\<close>.\<close>

definition validate_v3_token ::
  "('p, 'r) manager \<Rightarrow> int \<Rightarrow> string \<Rightarrow> (json, 'p, 'r) action" where
  "validate_v3_token self now token_id st =
     (if token_id = [] then (Inl TokenNotFound, st)
      else
        (case resolve_v3_token self token_id st of
           (Inl e, st1) \<Rightarrow> (unauthorized_to_not_found (Inl e), st1)
         | (Inr token_ref, st1) \<Rightarrow>
             (case priv_is_valid_token self now token_ref st1 of
                (Inl e, st2) \<Rightarrow> (unauthorized_to_not_found (Inl e), st2)
              | (Inr _, st2) \<Rightarrow> (Inr token_ref, st2))))"

section \<open>Issuance\<close>

text \<open>\<open>d[k] = v\<close>: item assignment needs a dictionary.\<close>

fun setitem :: "json \<Rightarrow> string \<Rightarrow> json \<Rightarrow> error + json" where
  "setitem (JDict d) k v = Inr (JDict (dict_set d k v))"
| "setitem _ k v = Inl TypeError"

text \<open>\<open>d.setdefault(k, v)\<close>: set the key only when it is absent.\<close>

fun setdefault :: "json \<Rightarrow> string \<Rightarrow> json \<Rightarrow> error + json" where
  "setdefault (JDict d) k v =
     Inr (case map_of d k of None \<Rightarrow> JDict (dict_set d k v) | Some _ \<Rightarrow> JDict d)"
| "setdefault _ k v = Inl AttributeError"

text \<open>Looking up a dictionary method (\<open>x.setdefault\<close>) on an object, which comes before
  the arguments of the call are evaluated.\<close>

fun dict_method :: "json \<Rightarrow> error + unit" where
  "dict_method (JDict d) = Inr ()"
| "dict_method _ = Inl AttributeError"

text \<open>What a \<open>for\<close> loop runs over: the elements of a list, the keys of a dictionary, the
  characters of a string.\<close>

fun iterate :: "json \<Rightarrow> error + json list" where
  "iterate (JList xs) = Inr xs"
| "iterate (JDict d) = Inr (map (\<lambda>kv. JStr (fst kv)) d)"
| "iterate (JStr s) = Inr (map (\<lambda>c. JStr [c]) s)"
| "iterate _ = Inl TypeError"

text \<open>A list comprehension \<open>[f x for x in xs]\<close>: the first failure ends it.\<close>

fun map_result :: "('a \<Rightarrow> error + 'b) \<Rightarrow> 'a list \<Rightarrow> error + 'b list" where
  "map_result f [] = Inr []"
| "map_result f (x # xs) =
     bind_result (f x) (\<lambda>y. bind_result (map_result f xs) (\<lambda>ys. Inr (y # ys)))"

text \<open>The \<open>try\<close> block of \<open>Manager._create_token\<close>, on the store.\<close>

definition create_token_try :: "('p, 'r) manager \<Rightarrow> string \<Rightarrow> json \<Rightarrow> 'p \<Rightarrow> error + 'p" where
  "create_token_try self token_id token_data s =
     bind_result (getitem token_data ''expires'') (\<lambda>expires.
     bind_result
       (case expires of
          JStr str \<Rightarrow>
            (case parse_isotime self str of
               None \<Rightarrow> Inl ValueError
             | Some t \<Rightarrow> setitem token_data ''expires'' (JTime t))
        | _ \<Rightarrow> Inr token_data) (\<lambda>token_data.
     create_token (persistence self) s token_id token_data))"

text \<open>\<open>Manager._create_token\<close>: when the \<open>try\<close> block raises, the token is fetched; the
  first exception is raised again only when the fetch raises \<open>TokenNotFound\<close>.\<close>

definition priv_create_token ::
  "('p, 'r) manager \<Rightarrow> string \<Rightarrow> json \<Rightarrow> (unit, 'p, 'r) action" where
  "priv_create_token self token_id token_data st =
     (case create_token_try self token_id token_data (store st) of
        Inr s \<Rightarrow> (Inr (), st\<lparr>store := s\<rparr>)
      | Inl exc_info \<Rightarrow>
          (case get_token (persistence self) (store st) token_id of
             Inr _ \<Rightarrow> (Inr (), st)
           | Inl e \<Rightarrow> (Inl (if e = TokenNotFound then exc_info else e), st)))"

text \<open>\<open>Manager.issue_v3_token\<close>, lines 405 to 431: the record to persist.\<close>

definition issue_v3_data :: "issue_args \<Rightarrow> string \<Rightarrow> json \<Rightarrow> error + json" where
  "issue_v3_data args token_id token_data =
     (let metadata_ref = (if metadata_ref args = JNone then JDict [] else metadata_ref args) in
      bind_result (getitem token_data ''token'') (\<lambda>tok.
      bind_result (contains ''project'' tok) (\<lambda>has_project.
      bind_result
        (if has_project then
           bind_result (getitem tok ''roles'') (\<lambda>roles.
           bind_result (iterate roles) (\<lambda>rs.
           bind_result (map_result (\<lambda>r. getitem r ''id'') rs) (\<lambda>role_ids.
           bind_result (getitem tok ''is_domain'') (\<lambda>is_domain.
           Inr (JDict [(''roles'', JList role_ids)], is_domain)))))
         else Inr (metadata_ref, is_domain args)) (\<lambda>(metadata_ref, is_domain).
      bind_result
        (if truthy (trust args) then
           bind_result (dict_method metadata_ref) (\<lambda>_.
           bind_result (getitem (trust args) ''id'') (\<lambda>trust_id.
           bind_result (setdefault metadata_ref ''trust_id'' trust_id) (\<lambda>metadata_ref.
           bind_result (dict_method metadata_ref) (\<lambda>_.
           bind_result (getitem (trust args) ''trustee_user_id'') (\<lambda>trustee.
           setdefault metadata_ref ''trustee_user_id'' trustee)))))
         else Inr metadata_ref) (\<lambda>metadata_ref.
      bind_result (getitem tok ''expires_at'') (\<lambda>expires.
      bind_result (getitem tok ''user'') (\<lambda>user.
      bind_result (dict_get tok ''project'' JNone) (\<lambda>tenant.
      bind_result
        (if truthy (trust args) then getitem (trust args) ''id'' else Inr JNone) (\<lambda>trust_id.
      Inr (JDict
        [(''key'', JStr token_id),
         (''id'', JStr token_id),
         (''expires'', expires),
         (''user'', user),
         (''tenant'', tenant),
         (''is_domain'', is_domain),
         (''metadata'', metadata_ref),
         (''token_data'', token_data),
         (''trust_id'', trust_id),
         (''token_version'', JStr V3)]))))))))))"

text \<open>\<open>Manager.issue_v3_token\<close>, lines 435 to 453: seeding the cache on issue.\<close>

definition issue_v3_cache ::
  "('p, 'r) manager \<Rightarrow> string \<Rightarrow> json \<Rightarrow> (unit, 'p, 'r) action" where
  "issue_v3_cache self token_id token_data st =
     (if cache_on_issue self then
        (let st1 = memo_set Memo_validate_v3_token token_data (JStr token_id) st;
             st2 = memo_set Memo_validate_token token_data (JStr token_id) st1;
             st3 = memo_set Memo_validate_non_persistent_token token_data (JStr token_id) st2
         in
           case v3_to_v2_token self token_data token_id of
             Inl e \<Rightarrow> (if e = Unauthorized then (Inr (), st3) else (Inl e, st3))
           | Inr v2_token_data \<Rightarrow>
               (Inr (), memo_set Memo_validate_v2_token v2_token_data (JStr token_id) st3))
      else (Inr (), st))"

text \<open>\<open>Manager.issue_v3_token\<close>, lines 400 to 433: the driver mints the token and the
  record is persisted when the driver needs it. The driver is not given \<open>is_domain\<close>.\<close>

definition issue_v3_persist ::
  "('p, 'r) manager \<Rightarrow> issue_args \<Rightarrow> (string \<times> json, 'p, 'r) action" where
  "issue_v3_persist self args st =
     (case driver_issue_v3_token (driver self) (args\<lparr>is_domain := JBool False\<rparr>) of
        Inl e \<Rightarrow> (Inl e, st)
      | Inr (token_id, token_data) \<Rightarrow>
          (case issue_v3_data args token_id token_data of
             Inl e \<Rightarrow> (Inl e, st)
           | Inr data \<Rightarrow>
               if driver_needs_persistence (driver self) then
                 (case priv_create_token self token_id data st of
                    (Inl e, st1) \<Rightarrow> (Inl e, st1)
                  | (Inr _, st1) \<Rightarrow> (Inr (token_id, token_data), st1))
               else (Inr (token_id, token_data), st)))"

text \<open>\<open>Manager.issue_v3_token\<close>.\<close>

definition issue_v3_token ::
  "('p, 'r) manager \<Rightarrow> issue_args \<Rightarrow> (string \<times> json, 'p, 'r) action" where
  "issue_v3_token self args st =
     (case issue_v3_persist self args st of
        (Inl e, st1) \<Rightarrow> (Inl e, st1)
      | (Inr (token_id, token_data), st1) \<Rightarrow>
          (case issue_v3_cache self token_id token_data st1 of
             (Inl e, st2) \<Rightarrow> (Inl e, st2)
           | (Inr _, st2) \<Rightarrow> (Inr (token_id, token_data), st2)))"

section \<open>Revocation and bulk invalidation\<close>

text \<open>\<open>Manager.revoke_token\<close>, at the current time \<open>now\<close>.\<close>

definition revoke_token ::
  "('p, 'r) manager \<Rightarrow> int \<Rightarrow> string \<Rightarrow> bool \<Rightarrow> (unit, 'p, 'r) action" where
  "revoke_token self now token_id revoke_chain st =
     (case validate_token self now token_id None st of
        (Inl e, st1) \<Rightarrow> (Inl e, st1)
      | (Inr token_data, st1) \<Rightarrow>
          (case KeystoneToken self token_id token_data of
             Inl e \<Rightarrow> (Inl e, st1)
           | Inr token_ref \<Rightarrow>
               (let project_id =
                      (if project_scoped token_ref then kt_project_id token_ref else JNone);
                    domain_id =
                      (if domain_scoped token_ref then kt_domain_id token_ref else JNone)
                in
                  case
                    (if revoke_chain then
                       revoke_by_audit_chain_id (revoke_api self) (registry st1)
                         (audit_chain_id token_ref) project_id domain_id
                     else
                       revoke_by_audit_id (revoke_api self) (registry st1) (audit_id token_ref))
                  of
                    Inl e \<Rightarrow> (Inl e, st1)
                  | Inr r \<Rightarrow>
                      (let st2 = st1\<lparr>registry := r\<rparr> in
                       if revoke_by_id self \<and> driver_needs_persistence (driver self) then
                         (case delete_token (persistence self) (store st2) token_id of
                            Inl e \<Rightarrow> (Inl e, st2)
                          | Inr s \<Rightarrow> (Inr (), st2\<lparr>store := s\<rparr>))
                       else (Inr (), st2)))))"

text \<open>
  The six event callbacks have one shape: a deletion in the store when
  \<open>CONF.token.revoke_by_id\<close> is set, then \<open>TOKENS_REGION.invalidate()\<close> when
  \<open>CONF.token.cache_on_issue\<close> is set. \<open>callback\<close> is that shape, given the deletion.
\<close>

definition callback ::
  "('p, 'r) manager \<Rightarrow> ('p \<Rightarrow> error + 'p) \<Rightarrow> (unit, 'p, 'r) action" where
  "callback self deletion st =
     (case (if revoke_by_id self then deletion (store st) else Inr (store st)) of
        Inl e \<Rightarrow> (Inl e, st)
      | Inr s \<Rightarrow>
          (let st1 = st\<lparr>store := s\<rparr> in
           if cache_on_issue self then (Inr (), region_invalidate st1) else (Inr (), st1)))"



text \<open>\<open>Manager._delete_domain_tokens_callback\<close>.\<close>

definition priv_delete_domain_tokens_callback ::
  "('p, 'r) manager \<Rightarrow> json \<Rightarrow> (unit, 'p, 'r) action" where
  "priv_delete_domain_tokens_callback self payload =
     callback self (\<lambda>s.
       bind_result (getitem payload ''resource_info'') (\<lambda>domain_id.
       delete_tokens_for_domain (persistence self) s domain_id))"




section \<open>Random URL-safe identifiers\<close>

text \<open>
  The URL-safe alphabet of \<open>base64.urlsafe_b64encode\<close> (RFC 4648, section 5), the
  character of a six-bit value, and the value of a character for the decoder, which reads
  \<open>-\<close> and \<open>_\<close> as \<open>+\<close> and \<open>/\<close> and so accepts both pairs.
\<close>

definition urlsafe_alphabet :: string where
  "urlsafe_alphabet =
     ''ABCDEFGHIJKLMNOPQRSTUVWXYZabcdefghijklmnopqrstuvwxyz0123456789-_''"

definition b64_char :: "nat \<Rightarrow> char" where
  "b64_char i = urlsafe_alphabet ! (i mod 64)"

fun index_of :: "char \<Rightarrow> string \<Rightarrow> nat option" where
  "index_of c [] = None"
| "index_of c (x # xs) =
     (if c = x then Some 0 else (case index_of c xs of None \<Rightarrow> None | Some i \<Rightarrow> Some (Suc i)))"

definition b64_value :: "char \<Rightarrow> nat option" where
  "b64_value c =
     (if c = CHR ''+'' then Some 62
      else if c = CHR ''/'' then Some 63
      else index_of c urlsafe_alphabet)"

text \<open>
  \<open>base64.urlsafe_b64encode\<close> on bytes: three bytes give four characters; one or two
  bytes left over give two or three characters and \<open>=\<close> padding.
\<close>

fun urlsafe_b64encode :: "8 word list \<Rightarrow> string" where
  "urlsafe_b64encode [] = []"
| "urlsafe_b64encode [a] =
     [b64_char (unat a div 4), b64_char (unat a mod 4 * 16), CHR ''='', CHR ''='']"
| "urlsafe_b64encode [a, b] =
     [b64_char (unat a div 4), b64_char (unat a mod 4 * 16 + unat b div 16),
      b64_char (unat b mod 16 * 4), CHR ''='']"
| "urlsafe_b64encode (a # b # c # bs) =
     [b64_char (unat a div 4), b64_char (unat a mod 4 * 16 + unat b div 16),
      b64_char (unat b mod 16 * 4 + unat c div 64), b64_char (unat c mod 64)]
     @ urlsafe_b64encode bs"

text \<open>
  The decoder of \<open>binascii.a2b_base64\<close>, which \<open>base64.urlsafe_b64decode\<close> runs after
  translating the alphabet: \<open>quad_pos\<close> counts the characters of the current group of
  four, \<open>leftchar\<close> holds the bits not yet written, \<open>pads\<close> counts the \<open>=\<close> seen in a
  row. Characters outside the alphabet are skipped; padding that completes a group ends
  the input; input that ends inside a group is an error (\<open>None\<close>).
\<close>

fun a2b_base64 :: "nat \<Rightarrow> nat \<Rightarrow> nat \<Rightarrow> string \<Rightarrow> 8 word list option" where
  "a2b_base64 quad_pos leftchar pads [] = (if quad_pos \<noteq> 0 then None else Some [])"
| "a2b_base64 quad_pos leftchar pads (this_ch # rest) =
     (if this_ch = CHR ''='' then
        (if quad_pos \<ge> 2 \<and> quad_pos + (pads + 1) \<ge> 4 then Some []
         else a2b_base64 quad_pos leftchar (pads + 1) rest)
      else
        (case b64_value this_ch of
           None \<Rightarrow> a2b_base64 quad_pos leftchar pads rest
         | Some v \<Rightarrow>
             if quad_pos = 0 then a2b_base64 1 v 0 rest
             else if quad_pos = 1 then
               map_option (\<lambda>out. of_nat (leftchar * 4 + v div 16) # out)
                 (a2b_base64 2 (v mod 16) 0 rest)
             else if quad_pos = 2 then
               map_option (\<lambda>out. of_nat (leftchar * 16 + v div 4) # out)
                 (a2b_base64 3 (v mod 4) 0 rest)
             else
               map_option (\<lambda>out. of_nat (leftchar * 64 + v) # out)
                 (a2b_base64 0 0 0 rest)))"

text \<open>\<open>base64.urlsafe_b64decode\<close> on a string: a string with a character outside ASCII
  is refused (\<open>None\<close>), any other goes through the decoder.\<close>

definition urlsafe_b64decode :: "string \<Rightarrow> 8 word list option" where
  "urlsafe_b64decode s =
     (if list_all (\<lambda>c. (of_char c :: nat) < 128) s then a2b_base64 0 0 0 s else None)"

text \<open>\<open>random_urlsafe_str\<close>, given the bytes of the UUID it draws: the last two
  characters of the encoding are dropped.\<close>

definition random_urlsafe_str :: "8 word list \<Rightarrow> string" where
  "random_urlsafe_str uuid_bytes =
     (let s = urlsafe_b64encode uuid_bytes in take (length s - 2) s)"

text \<open>\<open>random_urlsafe_str_to_bytes\<close>: the padding is put back and the string decoded.\<close>

definition random_urlsafe_str_to_bytes :: "string \<Rightarrow> 8 word list option" where
  "random_urlsafe_str_to_bytes s = urlsafe_b64decode (s @ ''=='')"

section \<open>Notions used in the properties\<close>

text \<open>The tenant id a V2 payload carries: \<open>token['access']['token']['tenant']['id']\<close>.\<close>

definition token_tenant_id :: "json \<Rightarrow> error + json" where
  "token_tenant_id token =
     bind_result (getitem token ''access'') (\<lambda>access.
     bind_result (getitem access ''token'') (\<lambda>token_data.
     bind_result (getitem token_data ''tenant'') (\<lambda>tenant.
     getitem tenant ''id'')))"

text \<open>The token has not expired: its expiry can be read and the current time is
  strictly before it.\<close>

definition unexpired :: "('p, 'r) manager \<Rightarrow> int \<Rightarrow> json \<Rightarrow> bool" where
  "unexpired self now token =
     (case token_expiry (parse_isotime self) token of
        Inl e \<Rightarrow> False
      | Inr expiry \<Rightarrow> now < expiry)"

text \<open>A state that differs from \<open>st\<close> in the cache region at most.\<close>

definition same_but_region :: "('p, 'r) state \<Rightarrow> ('p, 'r) state \<Rightarrow> bool" where
  "same_but_region st st' \<longleftrightarrow>
     store st' = store st \<and> registry st' = registry st \<and>
     revocation_checks st' = revocation_checks st"

text \<open>A call raises nothing but the exceptions of \<open>S\<close>.\<close>

definition raises_only :: "error set \<Rightarrow> error + 'a \<Rightarrow> bool" where
  "raises_only S r = (case r of Inl e \<Rightarrow> e \<in> S | Inr _ \<Rightarrow> True)"

text \<open>The collaborators of validation raise nothing but the exceptions of \<open>S\<close>.\<close>

definition collaborators_raise_only :: "error set \<Rightarrow> ('p, 'r) manager \<Rightarrow> bool" where
  "collaborators_raise_only S self \<longleftrightarrow>
     (\<forall>s k. raises_only S (get_token (persistence self) s k)) \<and>
     (\<forall>t. raises_only S (driver_get_token_version (driver self) t)) \<and>
     (\<forall>t. raises_only S (driver_validate_v2_token (driver self) t)) \<and>
     (\<forall>t. raises_only S (driver_validate_v3_token (driver self) t)) \<and>
     (\<forall>k. raises_only S (driver_validate_non_persistent_token (driver self) k)) \<and>
     (\<forall>t k. raises_only S (v3_to_v2_token self t k)) \<and>
     (\<forall>t d. raises_only S (build_token_values_v2 (revoke_api self) t d)) \<and>
     (\<forall>t. raises_only S (build_token_values (revoke_api self) t)) \<and>
     (\<forall>r v. raises_only S (check_token (revoke_api self) r v))"


section \<open>A small deployment\<close>

text \<open>
  A concrete manager on which the definitions above can be run: tokens are kept in an
  association list, the registry is the list of revoked token values, timestamps are
  written as decimal numbers, and a token id that starts with \<open>MII\<close> is a long-form id
  whose unique id is its first eight characters.
\<close>

definition demo_get_token_version :: "json \<Rightarrow> error + string" where
  "demo_get_token_version token_data =
     (case getitem token_data ''token_version'' of
        Inr (JStr v) \<Rightarrow> Inr v
      | _ \<Rightarrow>
          if contains ''access'' token_data = Inr True then Inr V2
          else if contains ''token'' token_data = Inr True then Inr V3
          else Inl UnsupportedTokenVersionException)"

definition demo_validate_persisted :: "json \<Rightarrow> error + json" where
  "demo_validate_persisted token_ref =
     (case getitem token_ref ''token_data'' of Inl e \<Rightarrow> Inl Unauthorized | Inr d \<Rightarrow> Inr d)"

definition demo_token :: "string \<Rightarrow> json" where
  "demo_token expires =
     JDict [(''token'', JDict [(''expires_at'', JStr expires), (''user'', JStr ''u1'')])]"

definition demo_trust_token :: "string \<Rightarrow> json" where
  "demo_trust_token expires =
     JDict [(''token'', JDict [(''expires_at'', JStr expires), (''user'', JStr ''u1''),
       (''OS-TRUST:trust'', JDict [(''id'', JStr ''tr1'')])])]"

definition demo_args :: "json \<Rightarrow> issue_args" where
  "demo_args trust_ref =
     \<lparr> user_id = JStr ''u1'', method_names = JList [JStr ''password''], expires_at = JNone,
       project_id = JNone, is_domain = JBool False, domain_id = JNone, auth_context = JNone,
       trust = trust_ref, metadata_ref = JNone, include_catalog = JBool True,
       parent_audit_id = JNone \<rparr>"

definition demo_v2_token :: "string \<Rightarrow> string \<Rightarrow> json" where
  "demo_v2_token expires tenant =
     JDict [(''access'', JDict [(''token'',
       JDict [(''expires'', JStr expires), (''tenant'', JDict [(''id'', JStr tenant)])])])]"

definition demo_record :: "string \<Rightarrow> json \<Rightarrow> json" where
  "demo_record version token_data =
     JDict [(''token_version'', JStr version), (''token_data'', token_data)]"

definition demo_driver :: "bool \<Rightarrow> provider" where
  "demo_driver persist =
     \<lparr> driver_needs_persistence = persist,
       driver_get_token_version = demo_get_token_version,
       driver_issue_v3_token =
         (\<lambda>args. if truthy (trust args) then Inr (''tok2'', demo_trust_token ''200'')
                 else Inr (''tok1'', demo_token ''200'')),
       driver_validate_v2_token = demo_validate_persisted,
       driver_validate_non_persistent_token =
         (\<lambda>token_id. if token_id = ''bad'' then Inl TokenNotFound else Inr (demo_token ''100'')),
       driver_validate_v3_token = demo_validate_persisted \<rparr>"

definition demo_persistence :: "(string \<times> json) list persistence_manager" where
  "demo_persistence =
     \<lparr> create_token =
         (\<lambda>s k d. if k = ''down'' then Inl (BackendError ''down'')
                  else if map_of s k \<noteq> None then Inl Conflict
                  else Inr ((k, d) # s)),
       get_token = (\<lambda>s k. case map_of s k of None \<Rightarrow> Inl TokenNotFound | Some r \<Rightarrow> Inr r),
       delete_token = (\<lambda>s k. Inr (filter (\<lambda>kv. fst kv \<noteq> k) s)),
       delete_tokens = (\<lambda>s u t c. Inr (filter (\<lambda>kv. getitem (snd kv) ''user'' \<noteq> Inr u) s)),
       delete_tokens_for_user =
         (\<lambda>s u p. Inr (filter (\<lambda>kv. getitem (snd kv) ''user'' \<noteq> Inr u) s)),
       delete_tokens_for_domain = (\<lambda>s d. Inl (BackendError ''down'')),
       delete_tokens_for_users = (\<lambda>s us p. Inr []) \<rparr>"

definition demo_revoke_api :: "json list revoke_manager" where
  "demo_revoke_api =
     \<lparr> build_token_values_v2 = (\<lambda>token_data dflt. Inr token_data),
       build_token_values = (\<lambda>token_data. Inr token_data),
       check_token = (\<lambda>r v. if v \<in> set r then Inl TokenNotFound else Inr ()),
       revoke_by_audit_id = (\<lambda>r a. Inr (a # r)),
       revoke_by_audit_chain_id = (\<lambda>r a p d. Inr (a # r)) \<rparr>"

fun parse_decimal :: "nat \<Rightarrow> string \<Rightarrow> nat option" where
  "parse_decimal acc [] = Some acc"
| "parse_decimal acc (c # cs) =
     (case index_of c ''0123456789'' of
        None \<Rightarrow> None
      | Some d \<Rightarrow> parse_decimal (acc * 10 + d) cs)"

definition demo_parse_isotime :: "string \<Rightarrow> int option" where
  "demo_parse_isotime s = (if s = [] then None else map_option int (parse_decimal 0 s))"

definition demo_v3_to_v2_token :: "json \<Rightarrow> string \<Rightarrow> error + json" where
  "demo_v3_to_v2_token v3_token_data token_id =
     (case bind_result (getitem v3_token_data ''token'') (\<lambda>tok.
             if contains ''OS-TRUST:trust'' tok = Inr True then Inl Unauthorized
             else getitem tok ''expires_at'') of
        Inl e \<Rightarrow> Inl Unauthorized
      | Inr expires \<Rightarrow>
          Inr (JDict [(''access'', JDict [(''token'',
            JDict [(''id'', JStr token_id), (''expires'', expires)])])]))"

definition demo_manager :: "bool \<Rightarrow> bool \<Rightarrow> bool \<Rightarrow> ((string \<times> json) list, json list) manager" where
  "demo_manager persist by_id on_issue =
     \<lparr> driver = demo_driver persist,
       persistence = demo_persistence,
       revoke_api = demo_revoke_api,
       revoke_by_id = by_id,
       cache_on_issue = on_issue,
       default_domain_id = ''default'',
       generate_unique_id = (\<lambda>token_id. if take 3 token_id = ''MII'' then take 8 token_id else token_id),
       v3_to_v2_token = demo_v3_to_v2_token,
       parse_isotime = demo_parse_isotime,
       KeystoneToken =
         (\<lambda>token_id token_data.
            Inr \<lparr> project_scoped = False, kt_project_id = JNone, domain_scoped = False,
                  kt_domain_id = JNone, audit_id = JStr token_id, audit_chain_id = JStr token_id \<rparr>),
       get_trust = (\<lambda>trust_id. Inr (JDict [(''trustor_user_id'', JStr ''u1'')])),
       list_user_ids_for_project = (\<lambda>project_id. Inr (JList [])) \<rparr>"

definition demo_state ::
  "(string \<times> json) list \<Rightarrow> json list \<Rightarrow> ((string \<times> json) list, json list) state" where
  "demo_state s r = \<lparr> store = s, registry = r, region = (\<lambda>k. None), revocation_checks = [] \<rparr>"

section \<open>Properties of validation\<close>

lemma check_revocation_v2_state: "snd (check_revocation_v2 self token st) = st"
  by (simp add: check_revocation_v2_def split: sum.splits)

lemma check_revocation_v3_state: "snd (check_revocation_v3 self token st) = st"
  by (simp add: check_revocation_v3_def split: sum.splits)

lemma check_revocation_state:
  "snd (check_revocation self token st) =
     st\<lparr>revocation_checks := revocation_checks st @ [token]\<rparr>"
  by (simp add: check_revocation_def Let_def check_revocation_v2_state
      check_revocation_v3_state split: sum.splits)



lemma is_valid_token_malformed:
  "token_expiry (parse_isotime self) token = Inl e \<Longrightarrow>
   priv_is_valid_token self now token st = (Inl TokenNotFound, st)"
  by (simp add: priv_is_valid_token_def)

lemma is_valid_token_log:
  "revocation_checks (snd (priv_is_valid_token self now token st)) =
     (if unexpired self now token then revocation_checks st @ [token]
      else revocation_checks st)"
  by (cases "token_expiry (parse_isotime self) token")
     (simp_all add: priv_is_valid_token_def unexpired_def check_revocation_state)


lemma validate_token_resolved:
  "fst (priv_validate_token self (generate_unique_id self token_id) st) = Inr token \<Longrightarrow>
   validate_token self now token_id belongs_to st =
     (let st1 = snd (priv_validate_token self (generate_unique_id self token_id) st) in
      case priv_token_belongs_to token belongs_to of
        Inl e \<Rightarrow> (Inl e, st1)
      | Inr _ \<Rightarrow>
          (case priv_is_valid_token self now token st1 of
             (Inl e, st2) \<Rightarrow> (Inl e, st2)
           | (Inr _, st2) \<Rightarrow> (Inr token, st2)))"
  by (cases "priv_validate_token self (generate_unique_id self token_id) st")
     (simp add: validate_token_def Let_def)

lemma validate_v2_token_resolved:
  "fst (resolve_v2_token self token_id st) = Inr token \<Longrightarrow>
   validate_v2_token self now token_id belongs_to st =
     (let st1 = snd (resolve_v2_token self token_id st) in
      case priv_token_belongs_to token belongs_to of
        Inl e \<Rightarrow> (Inl e, st1)
      | Inr _ \<Rightarrow>
          (case priv_is_valid_token self now token st1 of
             (Inl e, st2) \<Rightarrow> (Inl e, st2)
           | (Inr _, st2) \<Rightarrow> (Inr token, st2)))"
  by (cases "resolve_v2_token self token_id st") (simp add: validate_v2_token_def)

lemma validate_v3_token_resolved:
  "token_id \<noteq> [] \<Longrightarrow> fst (resolve_v3_token self token_id st) = Inr token \<Longrightarrow>
   validate_v3_token self now token_id st =
     (case priv_is_valid_token self now token (snd (resolve_v3_token self token_id st)) of
        (Inl e, st2) \<Rightarrow> (unauthorized_to_not_found (Inl e), st2)
      | (Inr _, st2) \<Rightarrow> (Inr token, st2))"
  by (cases "resolve_v3_token self token_id st") (simp add: validate_v3_token_def)

lemma getitem_contains:
  "getitem token_data k = Inr v \<Longrightarrow> contains k token_data = Inr True"
  by (cases token_data) (auto split: option.splits)

lemma belongs_to_mismatch:
  "token_tenant_id token = Inr tenant_id \<Longrightarrow> tenant_id \<noteq> JStr b \<Longrightarrow> b \<noteq> [] \<Longrightarrow>
   priv_token_belongs_to token (Some b) = Inl Unauthorized"
  by (auto simp: token_tenant_id_def priv_token_belongs_to_def bind_result_def
      getitem_contains split: sum.splits)






text \<open>
  C4 as stated fails: an expired token (its expiry is 100, the time 150) whose tenant is
  not the \<open>belongs_to\<close> given fails with \<open>Unauthorized\<close>, while a token id the store does
  not have fails with \<open>TokenNotFound\<close>, so the caller can tell the two apart.
\<close>

theorem expired_token_distinguishable_counterexample:
  "token_expiry (parse_isotime (demo_manager True False False)) (demo_v2_token ''100'' ''t1'')
     = Inr 100 \<and>
   fst (resolve_v2_token (demo_manager True False False) ''a''
     (demo_state [(''a'', demo_record V2 (demo_v2_token ''100'' ''t1''))] []))
     = Inr (demo_v2_token ''100'' ''t1'') \<and>
   fst (validate_v2_token (demo_manager True False False) 100 ''a'' (Some ''t2'')
     (demo_state [(''a'', demo_record V2 (demo_v2_token ''100'' ''t1''))] [])) = Inl Unauthorized \<and>
   fst (validate_token (demo_manager True False False) 100 ''a'' (Some ''t2'')
     (demo_state [(''a'', demo_record V2 (demo_v2_token ''100'' ''t1''))] [])) = Inl Unauthorized \<and>
   fst (validate_v2_token (demo_manager True False False) 100 ''absent'' (Some ''t2'')
     (demo_state [(''a'', demo_record V2 (demo_v2_token ''100'' ''t1''))] [])) = Inl TokenNotFound \<and>
   Unauthorized \<noteq> TokenNotFound"
  by code_simp

subsection \<open>What resolution does to the state\<close>

lemma memoize_success:
  assumes "snd (f arg st) = st" and "fst (memoize fn key f arg st) = Inr v"
  shows "snd (memoize fn key f arg st) = st\<lparr>region := (region st)((fn, key arg) \<mapsto> v)\<rparr>"
proof (cases "region st (fn, key arg)")
  case None
  with assms show ?thesis
    by (cases "f arg st") (auto simp: memoize_def split: sum.splits)
next
  case (Some w)
  with assms have "w = v" by (simp add: memoize_def)
  with Some have "(region st)((fn, key arg) \<mapsto> v) = region st"
    by (simp add: fun_upd_idem)
  with Some show ?thesis by (simp add: memoize_def)
qed

lemma memoize_failure:
  assumes "snd (f arg st) = st" and "fst (memoize fn key f arg st) = Inl e"
  shows "snd (memoize fn key f arg st) = st"
  using assms
  by (cases "f arg st") (auto simp: memoize_def split: option.splits sum.splits)

lemma validate_token_body_state: "snd (validate_token_body self token_id st) = st"
  by (simp add: validate_token_body_def split: sum.splits)

lemma priv_validate_token_success:
  "fst (priv_validate_token self k st) = Inr v \<Longrightarrow>
   snd (priv_validate_token self k st) = st\<lparr>region := (region st)((Memo_validate_token, JStr k) \<mapsto> v)\<rparr>"
  unfolding priv_validate_token_def
  by (rule memoize_success) (simp_all add: validate_token_body_state)

lemma priv_validate_token_failure:
  "fst (priv_validate_token self k st) = Inl e \<Longrightarrow> snd (priv_validate_token self k st) = st"
  unfolding priv_validate_token_def
  by (rule memoize_failure) (simp_all add: validate_token_body_state)

lemma priv_validate_v2_token_success:
  "fst (priv_validate_v2_token self k st) = Inr v \<Longrightarrow>
   snd (priv_validate_v2_token self k st) = st\<lparr>region := (region st)((Memo_validate_v2_token, k) \<mapsto> v)\<rparr>"
  unfolding priv_validate_v2_token_def
  by (rule memoize_success) simp_all

lemma priv_validate_v2_token_failure:
  "fst (priv_validate_v2_token self k st) = Inl e \<Longrightarrow> snd (priv_validate_v2_token self k st) = st"
  unfolding priv_validate_v2_token_def
  by (rule memoize_failure) simp_all

lemma priv_validate_v3_token_success:
  "fst (priv_validate_v3_token self k st) = Inr v \<Longrightarrow>
   snd (priv_validate_v3_token self k st) = st\<lparr>region := (region st)((Memo_validate_v3_token, k) \<mapsto> v)\<rparr>"
  unfolding priv_validate_v3_token_def
  by (rule memoize_success) simp_all

lemma priv_validate_v3_token_failure:
  "fst (priv_validate_v3_token self k st) = Inl e \<Longrightarrow> snd (priv_validate_v3_token self k st) = st"
  unfolding priv_validate_v3_token_def
  by (rule memoize_failure) simp_all

lemma validate_non_persistent_token_success:
  "fst (validate_non_persistent_token self k st) = Inr v \<Longrightarrow>
   snd (validate_non_persistent_token self k st) =
     st\<lparr>region := (region st)((Memo_validate_non_persistent_token, JStr k) \<mapsto> v)\<rparr>"
  unfolding validate_non_persistent_token_def
  by (rule memoize_success) simp_all

lemma validate_non_persistent_token_failure:
  "fst (validate_non_persistent_token self k st) = Inl e \<Longrightarrow>
   snd (validate_non_persistent_token self k st) = st"
  unfolding validate_non_persistent_token_def
  by (rule memoize_failure) simp_all

lemma same_but_region_cases:
  "(\<And>v. fst r = Inr v \<Longrightarrow> snd r = st\<lparr>region := g v\<rparr>) \<Longrightarrow>
   (\<And>e. fst r = Inl e \<Longrightarrow> snd r = st) \<Longrightarrow> same_but_region st (snd r)"
  by (cases "fst r") (simp_all add: same_but_region_def)

lemma priv_validate_token_frame: "same_but_region st (snd (priv_validate_token self k st))"
  by (rule same_but_region_cases [where g = "\<lambda>v. (region st)((Memo_validate_token, JStr k) \<mapsto> v)"])
     (simp_all add: priv_validate_token_success priv_validate_token_failure)

lemma priv_validate_v2_token_frame: "same_but_region st (snd (priv_validate_v2_token self k st))"
  by (rule same_but_region_cases [where g = "\<lambda>v. (region st)((Memo_validate_v2_token, k) \<mapsto> v)"])
     (simp_all add: priv_validate_v2_token_success priv_validate_v2_token_failure)

lemma priv_validate_v3_token_frame: "same_but_region st (snd (priv_validate_v3_token self k st))"
  by (rule same_but_region_cases [where g = "\<lambda>v. (region st)((Memo_validate_v3_token, k) \<mapsto> v)"])
     (simp_all add: priv_validate_v3_token_success priv_validate_v3_token_failure)

lemma validate_non_persistent_token_frame:
  "same_but_region st (snd (validate_non_persistent_token self k st))"
  by (rule same_but_region_cases
        [where g = "\<lambda>v. (region st)((Memo_validate_non_persistent_token, JStr k) \<mapsto> v)"])
     (simp_all add: validate_non_persistent_token_success validate_non_persistent_token_failure)

lemma resolve_v2_token_frame: "same_but_region st (snd (resolve_v2_token self token_id st))"
proof (cases "driver_needs_persistence (driver self)")
  case True
  then show ?thesis
    using priv_validate_v2_token_frame [of st self]
    by (auto simp: resolve_v2_token_def Let_def same_but_region_def split: sum.splits)
next
  case False
  then show ?thesis
    using validate_non_persistent_token_frame [of st self token_id]
    by (cases "validate_non_persistent_token self token_id st")
       (auto simp: resolve_v2_token_def same_but_region_def split: sum.splits)
qed

lemma resolve_v3_token_frame: "same_but_region st (snd (resolve_v3_token self token_id st))"
proof (cases "driver_needs_persistence (driver self)")
  case True
  then show ?thesis
    using priv_validate_v3_token_frame [of st self]
    by (auto simp: resolve_v3_token_def Let_def same_but_region_def split: sum.splits)
next
  case False
  then show ?thesis
    using validate_non_persistent_token_frame [of st self token_id]
    by (simp add: resolve_v3_token_def)
qed

lemma case_result_log:
  "revocation_checks (snd (case r of (Inl e, st2) \<Rightarrow> (g e, st2) | (Inr u, st2) \<Rightarrow> (h u, st2)))
     = revocation_checks (snd r)"
  by (cases r) (auto split: sum.splits)

lemma validate_token_log:
  assumes "fst (priv_validate_token self (generate_unique_id self token_id) st) = Inr token"
    and "priv_token_belongs_to token belongs_to = Inr ()"
  shows "revocation_checks (snd (validate_token self now token_id belongs_to st)) =
     (if unexpired self now token then revocation_checks st @ [token]
      else revocation_checks st)"
proof -
  let ?st1 = "snd (priv_validate_token self (generate_unique_id self token_id) st)"
  have "revocation_checks ?st1 = revocation_checks st"
    using priv_validate_token_frame [of st self] by (simp add: same_but_region_def)
  moreover have "revocation_checks (snd (validate_token self now token_id belongs_to st)) =
      revocation_checks (snd (priv_is_valid_token self now token ?st1))"
    using assms by (simp add: validate_token_resolved Let_def case_result_log)
  ultimately show ?thesis by (simp add: is_valid_token_log)
qed

lemma validate_v2_token_log:
  assumes "fst (resolve_v2_token self token_id st) = Inr token"
    and "priv_token_belongs_to token belongs_to = Inr ()"
  shows "revocation_checks (snd (validate_v2_token self now token_id belongs_to st)) =
     (if unexpired self now token then revocation_checks st @ [token]
      else revocation_checks st)"
proof -
  let ?st1 = "snd (resolve_v2_token self token_id st)"
  have "revocation_checks ?st1 = revocation_checks st"
    using resolve_v2_token_frame [of st self] by (simp add: same_but_region_def)
  moreover have "revocation_checks (snd (validate_v2_token self now token_id belongs_to st)) =
      revocation_checks (snd (priv_is_valid_token self now token ?st1))"
    using assms by (simp add: validate_v2_token_resolved Let_def case_result_log)
  ultimately show ?thesis by (simp add: is_valid_token_log)
qed

lemma validate_v3_token_log:
  assumes "fst (resolve_v3_token self token_id st) = Inr token" and "token_id \<noteq> []"
  shows "revocation_checks (snd (validate_v3_token self now token_id st)) =
     (if unexpired self now token then revocation_checks st @ [token]
      else revocation_checks st)"
proof -
  let ?st1 = "snd (resolve_v3_token self token_id st)"
  have "revocation_checks ?st1 = revocation_checks st"
    using resolve_v3_token_frame [of st self] by (simp add: same_but_region_def)
  moreover have "revocation_checks (snd (validate_v3_token self now token_id st)) =
      revocation_checks (snd (priv_is_valid_token self now token ?st1))"
    using assms by (simp add: validate_v3_token_resolved case_result_log)
  ultimately show ?thesis by (simp add: is_valid_token_log)
qed
















text \<open>
  C3 as stated fails: a token that has not expired (its expiry is 100, the time 50) and
  that the registry holds as revoked is never checked when its tenant is not the
  \<open>belongs_to\<close> given: the call ends in the scope check with \<open>Unauthorized\<close>, and no
  revocation check is logged.
\<close>

theorem unexpired_token_unchecked_counterexample:
  "unexpired (demo_manager True False False) 50 (demo_v2_token ''100'' ''t1'') \<and>
   fst (priv_is_valid_token (demo_manager True False False) 50 (demo_v2_token ''100'' ''t1'')
     (demo_state [(''a'', demo_record V2 (demo_v2_token ''100'' ''t1''))]
        [JDict [(''token'',
           JDict [(''expires'', JStr ''100''), (''tenant'', JDict [(''id'', JStr ''t1'')])])]]))
     = Inl TokenNotFound \<and>
   fst (validate_token (demo_manager True False False) 50 ''a'' (Some ''t2'')
     (demo_state [(''a'', demo_record V2 (demo_v2_token ''100'' ''t1''))]
        [JDict [(''token'',
           JDict [(''expires'', JStr ''100''), (''tenant'', JDict [(''id'', JStr ''t1'')])])]]))
     = Inl Unauthorized \<and>
   revocation_checks (snd (validate_token (demo_manager True False False) 50 ''a'' (Some ''t2'')
     (demo_state [(''a'', demo_record V2 (demo_v2_token ''100'' ''t1''))]
        [JDict [(''token'',
           JDict [(''expires'', JStr ''100''), (''tenant'', JDict [(''id'', JStr ''t1'')])])]])))
     = [] \<and>
   revocation_checks (snd (validate_v2_token (demo_manager True False False) 50 ''a'' (Some ''t2'')
     (demo_state [(''a'', demo_record V2 (demo_v2_token ''100'' ''t1''))]
        [JDict [(''token'',
           JDict [(''expires'', JStr ''100''), (''tenant'', JDict [(''id'', JStr ''t1'')])])]])))
     = []"
  by code_simp

text \<open>
  C1 (as the code has it). In \<open>validate_token\<close> and \<open>validate_v2_token\<close> the steps run
  in the order resolution, scope binding (\<open>_token_belongs_to\<close>), expiry, revocation,
  and the first failure ends the call. A resolved token that carries a tenant id other
  than a non-empty \<open>belongs_to\<close> fails with \<open>Unauthorized\<close> at every current time,
  expired or not, in the state resolution left; when the scope check passes, a token that
  is not unexpired fails with \<open>TokenNotFound\<close> without a revocation check, and an
  unexpired token gets the result of the revocation check.
\<close>

theorem scope_check_precedes_expiry:
  "(token_tenant_id token = Inr tenant_id \<and> tenant_id \<noteq> JStr b \<and> b \<noteq> [] \<and>
    fst (priv_validate_token self (generate_unique_id self token_id) st) = Inr token \<longrightarrow>
      validate_token self now token_id (Some b) st =
        (Inl Unauthorized, snd (priv_validate_token self (generate_unique_id self token_id) st))) \<and>
   (token_tenant_id token = Inr tenant_id \<and> tenant_id \<noteq> JStr b \<and> b \<noteq> [] \<and>
    fst (resolve_v2_token self token_id st) = Inr token \<longrightarrow>
      validate_v2_token self now token_id (Some b) st =
        (Inl Unauthorized, snd (resolve_v2_token self token_id st))) \<and>
   (priv_token_belongs_to token belongs_to = Inr () \<and> \<not> unexpired self now token \<and>
    fst (priv_validate_token self (generate_unique_id self token_id) st) = Inr token \<longrightarrow>
      validate_token self now token_id belongs_to st =
        (Inl TokenNotFound, snd (priv_validate_token self (generate_unique_id self token_id) st))) \<and>
   (priv_token_belongs_to token belongs_to = Inr () \<and> \<not> unexpired self now token \<and>
    fst (resolve_v2_token self token_id st) = Inr token \<longrightarrow>
      validate_v2_token self now token_id belongs_to st =
        (Inl TokenNotFound, snd (resolve_v2_token self token_id st))) \<and>
   (priv_token_belongs_to token belongs_to = Inr () \<and> unexpired self now token \<and>
    fst (priv_validate_token self (generate_unique_id self token_id) st) = Inr token \<longrightarrow>
      validate_token self now token_id belongs_to st =
        (case check_revocation self token
                (snd (priv_validate_token self (generate_unique_id self token_id) st)) of
           (Inl e, st2) \<Rightarrow> (Inl e, st2)
         | (Inr u, st2) \<Rightarrow> (Inr token, st2))) \<and>
   (priv_token_belongs_to token belongs_to = Inr () \<and> unexpired self now token \<and>
    fst (resolve_v2_token self token_id st) = Inr token \<longrightarrow>
      validate_v2_token self now token_id belongs_to st =
        (case check_revocation self token (snd (resolve_v2_token self token_id st)) of
           (Inl e, st2) \<Rightarrow> (Inl e, st2)
         | (Inr u, st2) \<Rightarrow> (Inr token, st2)))"
proof -
  have expired: "priv_is_valid_token self now token s = (Inl TokenNotFound, s)"
    if "\<not> unexpired self now token" for s
    using that
    by (cases "token_expiry (parse_isotime self) token")
       (simp_all add: priv_is_valid_token_def unexpired_def)
  have live: "priv_is_valid_token self now token s = check_revocation self token s"
    if "unexpired self now token" for s
    using that
    by (cases "token_expiry (parse_isotime self) token")
       (simp_all add: priv_is_valid_token_def unexpired_def)
  show ?thesis
    by (simp add: validate_token_resolved validate_v2_token_resolved Let_def
        belongs_to_mismatch expired live)
qed

theorem scope_check_precedes_expiry_witness:
  "token_tenant_id (demo_v2_token ''100'' ''t1'') = Inr (JStr ''t1'') \<and>
   fst (validate_token (demo_manager True False False) 50 ''a'' (Some ''t2'')
     (demo_state [(''a'', demo_record V2 (demo_v2_token ''100'' ''t1''))] [])) = Inl Unauthorized \<and>
   fst (validate_token (demo_manager True False False) 150 ''a'' (Some ''t2'')
     (demo_state [(''a'', demo_record V2 (demo_v2_token ''100'' ''t1''))] [])) = Inl Unauthorized \<and>
   fst (validate_v2_token (demo_manager True False False) 150 ''a'' (Some ''t2'')
     (demo_state [(''a'', demo_record V2 (demo_v2_token ''100'' ''t1''))] [])) = Inl Unauthorized \<and>
   fst (validate_token (demo_manager True False False) 150 ''a'' (Some ''t1'')
     (demo_state [(''a'', demo_record V2 (demo_v2_token ''100'' ''t1''))] [])) = Inl TokenNotFound \<and>
   fst (validate_v2_token (demo_manager True False False) 150 ''a'' (Some ''t1'')
     (demo_state [(''a'', demo_record V2 (demo_v2_token ''100'' ''t1''))] [])) = Inl TokenNotFound \<and>
   fst (validate_token (demo_manager True False False) 50 ''a'' (Some ''t1'')
     (demo_state [(''a'', demo_record V2 (demo_v2_token ''100'' ''t1''))] []))
     = Inr (demo_v2_token ''100'' ''t1'')"
proof -
  let ?m = "demo_manager True False False"
  let ?tok = "demo_v2_token ''100'' ''t1''"
  let ?st = "demo_state [(''a'', demo_record V2 (demo_v2_token ''100'' ''t1''))] []"
  have t: "token_tenant_id ?tok = Inr (JStr ''t1'')"
    by code_simp
  have r1: "fst (priv_validate_token ?m (generate_unique_id ?m ''a'') ?st) = Inr ?tok"
    by code_simp
  have r2: "fst (resolve_v2_token ?m ''a'' ?st) = Inr ?tok"
    by code_simp
  have b: "priv_token_belongs_to ?tok (Some ''t1'') = Inr ()"
    by code_simp
  have u: "unexpired ?m 50 ?tok"
    by code_simp
  have nu: "\<not> unexpired ?m 150 ?tok"
    by code_simp
  have c: "fst (check_revocation ?m ?tok (snd (priv_validate_token ?m (generate_unique_id ?m ''a'') ?st)))
      = Inr ()"
    by code_simp
  note t1 = scope_check_precedes_expiry
    [where self = ?m and token = ?tok and st = ?st and token_id = "''a''"
       and tenant_id = "JStr ''t1''" and b = "''t2''"]
  have g1: "fst (validate_token ?m 50 ''a'' (Some ''t2'') ?st) = Inl Unauthorized"
    using t1 [where now = 50] t r1 by simp
  have g2: "fst (validate_token ?m 150 ''a'' (Some ''t2'') ?st) = Inl Unauthorized"
    using t1 [where now = 150] t r1 by simp
  have g3: "fst (validate_v2_token ?m 150 ''a'' (Some ''t2'') ?st) = Inl Unauthorized"
    using t1 [where now = 150] t r2 by simp
  have g4: "fst (validate_token ?m 150 ''a'' (Some ''t1'') ?st) = Inl TokenNotFound"
    using t1 [where now = 150 and belongs_to = "Some ''t1''"] b nu r1 by simp
  have g5: "fst (validate_v2_token ?m 150 ''a'' (Some ''t1'') ?st) = Inl TokenNotFound"
    using t1 [where now = 150 and belongs_to = "Some ''t1''"] b nu r2 by simp
  have g6: "fst (validate_token ?m 50 ''a'' (Some ''t1'') ?st) = Inr ?tok"
    using t1 [where now = 50 and belongs_to = "Some ''t1''"] b u r1 c
    by (cases "check_revocation ?m ?tok
          (snd (priv_validate_token ?m (generate_unique_id ?m ''a'') ?st))") simp
  from t g1 g2 g3 g4 g5 g6 show ?thesis by simp
qed

text \<open>
  C1 as stated fails: a token that has expired (its expiry is 100, the time 150) and whose
  tenant \<open>t1\<close> is not the \<open>belongs_to\<close> given fails with \<open>Unauthorized\<close>, not with
  \<open>TokenNotFound\<close>, through both entry points.
\<close>

theorem scope_check_after_expiry_counterexample:
  "token_expiry (parse_isotime (demo_manager True False False)) (demo_v2_token ''100'' ''t1'')
     = Inr 100 \<and>
   token_tenant_id (demo_v2_token ''100'' ''t1'') = Inr (JStr ''t1'') \<and>
   fst (validate_token (demo_manager True False False) 150 ''a'' (Some ''t2'')
     (demo_state [(''a'', demo_record V2 (demo_v2_token ''100'' ''t1''))] [])) = Inl Unauthorized \<and>
   fst (validate_v2_token (demo_manager True False False) 150 ''a'' (Some ''t2'')
     (demo_state [(''a'', demo_record V2 (demo_v2_token ''100'' ''t1''))] [])) = Inl Unauthorized \<and>
   fst (validate_token (demo_manager True False False) 150 ''a'' (Some ''t2'')
     (demo_state [(''a'', demo_record V2 (demo_v2_token ''100'' ''t1''))] [])) \<noteq> Inl TokenNotFound"
  by code_simp

subsection \<open>The exceptions that leave validation\<close>

lemma collaborators_raise_onlyD:
  assumes "collaborators_raise_only S self"
  shows "get_token (persistence self) s k = Inl e \<Longrightarrow> e \<in> S"
    and "driver_get_token_version (driver self) t = Inl e \<Longrightarrow> e \<in> S"
    and "driver_validate_v2_token (driver self) t = Inl e \<Longrightarrow> e \<in> S"
    and "driver_validate_v3_token (driver self) t = Inl e \<Longrightarrow> e \<in> S"
    and "driver_validate_non_persistent_token (driver self) k = Inl e \<Longrightarrow> e \<in> S"
    and "v3_to_v2_token self t k = Inl e \<Longrightarrow> e \<in> S"
    and "build_token_values_v2 (revoke_api self) t d = Inl e \<Longrightarrow> e \<in> S"
    and "build_token_values (revoke_api self) t = Inl e \<Longrightarrow> e \<in> S"
    and "check_token (revoke_api self) r v = Inl e \<Longrightarrow> e \<in> S"
  using assms
  by (auto simp: collaborators_raise_only_def raises_only_def split: sum.splits)

lemma token_expiry_dict: "token_expiry parse token = Inr x \<Longrightarrow> \<exists>d. token = JDict d"
  by (cases token) (simp_all add: token_expiry_def bind_result_def)

lemma check_revocation_raises:
  assumes "collaborators_raise_only S self" and "TokenNotFound \<in> S"
    and "fst (check_revocation self (JDict d) st) = Inl e"
  shows "e \<in> S"
  using assms(2,3) collaborators_raise_onlyD(2,7,8,9) [OF assms(1)]
  by (auto simp: check_revocation_def check_revocation_v2_def check_revocation_v3_def
      bind_result_def Let_def split: sum.splits option.splits if_splits)

lemma is_valid_token_raises:
  assumes "collaborators_raise_only S self" and "TokenNotFound \<in> S"
    and "fst (priv_is_valid_token self now token st) = Inl e"
  shows "e \<in> S"
proof (cases "token_expiry (parse_isotime self) token")
  case (Inl x)
  with assms(2,3) show ?thesis by (simp add: priv_is_valid_token_def)
next
  case (Inr expiry)
  then obtain d where "token = JDict d" using token_expiry_dict by blast
  with Inr assms show ?thesis
    by (auto simp: priv_is_valid_token_def split: if_splits dest: check_revocation_raises)
qed

lemma memoize_raises:
  "fst (memoize fn key f arg st) = Inl e \<Longrightarrow> fst (f arg st) = Inl e"
  by (cases "f arg st") (auto simp: memoize_def split: option.splits sum.splits)

lemma memoize_raises_pair:
  "memoize fn key f arg st = (Inl e, st') \<Longrightarrow> fst (f arg st) = Inl e"
  using memoize_raises [of fn key f arg st e] by simp


lemma resolve_v2_token_raises:
  assumes "collaborators_raise_only S self"
    and "fst (resolve_v2_token self token_id st) = Inl e"
  shows "e \<in> S"
proof (cases "driver_needs_persistence (driver self)")
  case True
  with assms(2) show ?thesis
    using collaborators_raise_onlyD(1,3) [OF assms(1)]
    by (auto simp: resolve_v2_token_def Let_def priv_validate_v2_token_def
        split: sum.splits dest!: memoize_raises memoize_raises_pair)
next
  case False
  with assms(2) show ?thesis
    using collaborators_raise_onlyD(5,6) [OF assms(1)]
    by (cases "validate_non_persistent_token self token_id st")
       (auto simp: resolve_v2_token_def validate_non_persistent_token_def
        split: sum.splits dest!: memoize_raises memoize_raises_pair)
qed



lemma validate_v2_token_raises:
  assumes "collaborators_raise_only S self" and "TokenNotFound \<in> S"
    and "fst (validate_v2_token self now token_id None st) = Inl e"
  shows "e \<in> S"
proof (cases "resolve_v2_token self token_id st")
  case (Pair r st1)
  show ?thesis
  proof (cases r)
    case (Inl x)
    with Pair assms(3) have "fst (resolve_v2_token self token_id st) = Inl e"
      by (simp add: validate_v2_token_def)
    with assms(1) show ?thesis by (rule resolve_v2_token_raises)
  next
    case (Inr token)
    with Pair assms(3) have "fst (priv_is_valid_token self now token st1) = Inl e"
      by (cases "priv_is_valid_token self now token st1")
         (auto simp: validate_v2_token_def priv_token_belongs_to_def split: sum.splits)
    with assms(1,2) show ?thesis by (rule is_valid_token_raises)
  qed
qed












subsection \<open>The keys of the cache\<close>

lemma is_valid_token_region: "region (snd (priv_is_valid_token self now token st)) = region st"
  by (cases "token_expiry (parse_isotime self) token")
     (simp_all add: priv_is_valid_token_def check_revocation_state)

lemma case_result_region:
  "region (snd (case r of (Inl e, st2) \<Rightarrow> (g e, st2) | (Inr u, st2) \<Rightarrow> (h u, st2)))
     = region (snd r)"
  by (cases r) (auto split: sum.splits)

lemma validate_token_region:
  "region (snd (validate_token self now token_id belongs_to st)) =
     region (snd (priv_validate_token self (generate_unique_id self token_id) st))"
  by (cases "priv_validate_token self (generate_unique_id self token_id) st")
     (auto simp: validate_token_def Let_def case_result_region is_valid_token_region
        split: sum.splits)

lemma validate_token_returns:
  "fst (validate_token self now token_id belongs_to st) = Inr token \<Longrightarrow>
   fst (priv_validate_token self (generate_unique_id self token_id) st) = Inr token"
  by (cases "priv_validate_token self (generate_unique_id self token_id) st")
     (auto simp: validate_token_def Let_def split: sum.splits prod.splits)

lemma validate_v3_token_region:
  "token_id \<noteq> [] \<Longrightarrow>
   region (snd (validate_v3_token self now token_id st)) =
     region (snd (resolve_v3_token self token_id st))"
  by (cases "resolve_v3_token self token_id st")
     (auto simp: validate_v3_token_def case_result_region is_valid_token_region
        split: sum.splits)

lemma validate_v3_token_returns:
  "fst (validate_v3_token self now token_id st) = Inr token \<Longrightarrow>
   token_id \<noteq> [] \<and> fst (resolve_v3_token self token_id st) = Inr token"
  by (cases "resolve_v3_token self token_id st")
     (auto simp: validate_v3_token_def unauthorized_to_not_found_def
        split: sum.splits prod.splits if_splits)

lemma memoize_region_frame:
  assumes "snd (f arg st) = st" and "k \<noteq> (fn, key arg)"
  shows "region (snd (memoize fn key f arg st)) k = region st k"
proof (cases "fst (memoize fn key f arg st)")
  case (Inl e)
  with assms(1) show ?thesis by (simp add: memoize_failure)
next
  case (Inr v)
  with assms show ?thesis by (simp add: memoize_success)
qed

text \<open>
  C6 (as the code has it). \<open>validate_token\<close> keys \<open>_validate_token\<close> by the normalized
  unique id: the call touches no cache entry but the one under that key, and a successful
  call leaves the token there. On a backend without persistence \<open>validate_v3_token\<close>
  keys \<open>validate_non_persistent_token\<close> by the token id as it was presented, which is
  the key issuance seeds.
\<close>

theorem memoization_keys:
  "(k \<noteq> (Memo_validate_token, JStr (generate_unique_id self token_id)) \<longrightarrow>
      region (snd (validate_token self now token_id belongs_to st)) k = region st k) \<and>
   (fst (validate_token self now token_id belongs_to st) = Inr token \<longrightarrow>
      region (snd (validate_token self now token_id belongs_to st)) =
        (region st)((Memo_validate_token, JStr (generate_unique_id self token_id)) \<mapsto> token)) \<and>
   (\<not> driver_needs_persistence (driver self) \<and>
    k \<noteq> (Memo_validate_non_persistent_token, JStr token_id) \<longrightarrow>
      region (snd (validate_v3_token self now token_id st)) k = region st k) \<and>
   (\<not> driver_needs_persistence (driver self) \<and>
    fst (validate_v3_token self now token_id st) = Inr token \<longrightarrow>
      region (snd (validate_v3_token self now token_id st)) =
        (region st)((Memo_validate_non_persistent_token, JStr token_id) \<mapsto> token)) \<and>
   (cache_on_issue self \<longrightarrow>
      region (snd (issue_v3_cache self token_id token_data st))
        (Memo_validate_non_persistent_token, JStr token_id) = Some token_data)"
proof -
  have a: "region (snd (validate_token self now token_id belongs_to st)) k = region st k"
    if "k \<noteq> (Memo_validate_token, JStr (generate_unique_id self token_id))"
    using that
    by (simp add: validate_token_region priv_validate_token_def memoize_region_frame
        validate_token_body_state)
  have b: "region (snd (validate_token self now token_id belongs_to st)) =
        (region st)((Memo_validate_token, JStr (generate_unique_id self token_id)) \<mapsto> token)"
    if "fst (validate_token self now token_id belongs_to st) = Inr token"
    using validate_token_returns [OF that]
    by (simp add: validate_token_region priv_validate_token_success)
  have c: "region (snd (validate_v3_token self now token_id st)) k = region st k"
    if "\<not> driver_needs_persistence (driver self)"
      and "k \<noteq> (Memo_validate_non_persistent_token, JStr token_id)"
    using that
    by (cases "token_id = []")
       (simp_all add: validate_v3_token_region resolve_v3_token_def
          validate_non_persistent_token_def memoize_region_frame, simp add: validate_v3_token_def)
  have d: "region (snd (validate_v3_token self now token_id st)) =
        (region st)((Memo_validate_non_persistent_token, JStr token_id) \<mapsto> token)"
    if "\<not> driver_needs_persistence (driver self)"
      and "fst (validate_v3_token self now token_id st) = Inr token"
    using validate_v3_token_returns [OF that(2)] that(1)
    by (simp add: validate_v3_token_region resolve_v3_token_def
        validate_non_persistent_token_success)
  have e: "region (snd (issue_v3_cache self token_id token_data st))
        (Memo_validate_non_persistent_token, JStr token_id) = Some token_data"
    if "cache_on_issue self"
    using that by (simp add: issue_v3_cache_def Let_def memo_set_def split: sum.splits)
  from a b c d e show ?thesis by blast
qed

theorem memoization_keys_witness:
  "generate_unique_id (demo_manager True False True) ''MIIlongformid'' = ''MIIlongf'' \<and>
   fst (validate_token (demo_manager True False True) 50 ''MIIlongformid'' None
     (demo_state [(''MIIlongf'', demo_record V3 (demo_token ''100''))] []))
     = Inr (demo_token ''100'') \<and>
   region (snd (validate_token (demo_manager True False True) 50 ''MIIlongformid'' None
     (demo_state [(''MIIlongf'', demo_record V3 (demo_token ''100''))] [])))
     (Memo_validate_token, JStr ''MIIlongf'') = Some (demo_token ''100'') \<and>
   region (snd (validate_token (demo_manager True False True) 50 ''MIIlongformid'' None
     (demo_state [(''MIIlongf'', demo_record V3 (demo_token ''100''))] [])))
     (Memo_validate_token, JStr ''MIIlongformid'') = None \<and>
   region (snd (validate_v3_token (demo_manager False False True) 50 ''MIIlongformid''
     (demo_state [] [])))
     (Memo_validate_non_persistent_token, JStr ''MIIlongformid'') = Some (demo_token ''100'') \<and>
   region (snd (issue_v3_cache (demo_manager False False True) ''tok1'' (demo_token ''200'')
     (demo_state [] [])))
     (Memo_validate_non_persistent_token, JStr ''tok1'') = Some (demo_token ''200'')"
proof -
  let ?m = "demo_manager True False True"
  let ?n = "demo_manager False False True"
  let ?st = "demo_state [(''MIIlongf'', demo_record V3 (demo_token ''100''))] []"
  let ?e = "demo_state [] [] :: ((string \<times> json) list, json list) state"
  have u: "generate_unique_id ?m ''MIIlongformid'' = ''MIIlongf''" by code_simp
  have r: "fst (validate_token ?m 50 ''MIIlongformid'' None ?st) = Inr (demo_token ''100'')"
    by code_simp
  have r3: "fst (validate_v3_token ?n 50 ''MIIlongformid'' ?e) = Inr (demo_token ''100'')"
    by code_simp
  have np: "\<not> driver_needs_persistence (driver ?n)" by code_simp
  have ci: "cache_on_issue ?n" by code_simp
  have z: "region ?st (Memo_validate_token, JStr ''MIIlongformid'') = None"
    by (simp add: demo_state_def)
  note t = memoization_keys [where self = ?m and now = 50 and token_id = "''MIIlongformid''"
      and belongs_to = None and st = ?st and token = "demo_token ''100''"
      and k = "(Memo_validate_token, JStr ''MIIlongformid'')"]
  note t3 = memoization_keys [where self = ?n and now = 50 and token_id = "''MIIlongformid''"
      and st = ?e and token = "demo_token ''100''"]
  note ti = memoization_keys [where self = ?n and token_id = "''tok1''"
      and st = ?e and token_data = "demo_token ''200''"]
  have g1: "region (snd (validate_token ?m 50 ''MIIlongformid'' None ?st))
      (Memo_validate_token, JStr ''MIIlongf'') = Some (demo_token ''100'')"
    using t r u by simp
  have g2: "region (snd (validate_token ?m 50 ''MIIlongformid'' None ?st))
      (Memo_validate_token, JStr ''MIIlongformid'') = None"
    using t u z by simp
  have g3: "region (snd (validate_v3_token ?n 50 ''MIIlongformid'' ?e))
      (Memo_validate_non_persistent_token, JStr ''MIIlongformid'') = Some (demo_token ''100'')"
    using t3 r3 np by simp
  have g4: "region (snd (issue_v3_cache ?n ''tok1'' (demo_token ''200'') ?e))
      (Memo_validate_non_persistent_token, JStr ''tok1'') = Some (demo_token ''200'')"
    using ti ci by simp
  from u r g1 g2 g3 g4 show ?thesis by simp
qed

text \<open>
  C6 as stated fails. On a backend without persistence \<open>validate_v3_token\<close> leaves the
  token under the long-form id it was given, not under the unique id; on a backend with
  persistence it leaves the token of \<open>_validate_v3_token\<close> under the record fetched from
  the store, and nothing under the unique id.
\<close>

theorem long_form_key_counterexample:
  "generate_unique_id (demo_manager False False True) ''MIIlongformid'' = ''MIIlongf'' \<and>
   region (snd (validate_v3_token (demo_manager False False True) 50 ''MIIlongformid''
       (demo_state [] [])))
     (Memo_validate_non_persistent_token, JStr ''MIIlongformid'') = Some (demo_token ''100'') \<and>
   region (snd (validate_v3_token (demo_manager False False True) 50 ''MIIlongformid''
       (demo_state [] [])))
     (Memo_validate_non_persistent_token, JStr ''MIIlongf'') = None \<and>
   region (snd (validate_v3_token (demo_manager True False True) 50 ''MIIlongformid''
       (demo_state [(''MIIlongf'', demo_record V3 (demo_token ''100''))] [])))
     (Memo_validate_v3_token, demo_record V3 (demo_token ''100'')) = Some (demo_token ''100'') \<and>
   region (snd (validate_v3_token (demo_manager True False True) 50 ''MIIlongformid''
       (demo_state [(''MIIlongf'', demo_record V3 (demo_token ''100''))] [])))
     (Memo_validate_v3_token, JStr ''MIIlongf'') = None"
  by code_simp

section \<open>Properties of issuance\<close>

text \<open>
  C5. Duplicate-create race. When the \<open>try\<close> block of \<open>_create_token\<close> raises (in
  particular when the store's \<open>create_token\<close> raises) and the fetch by the same token
  id then finds a record, \<open>_create_token\<close> returns without raising and leaves the state as
  it was. The first exception is raised again exactly when the fetch raises
  \<open>TokenNotFound\<close>; any other exception of the fetch is raised in its place.
\<close>

theorem create_token_race:
  "(create_token_try self token_id token_data (store st) = Inl exc_info \<and>
    get_token (persistence self) (store st) token_id = Inr existing \<longrightarrow>
      priv_create_token self token_id token_data st = (Inr (), st)) \<and>
   (create_token_try self token_id token_data (store st) = Inl exc_info \<and>
    get_token (persistence self) (store st) token_id = Inl TokenNotFound \<longrightarrow>
      priv_create_token self token_id token_data st = (Inl exc_info, st)) \<and>
   (create_token_try self token_id token_data (store st) = Inl exc_info \<and>
    get_token (persistence self) (store st) token_id = Inl e \<and> e \<noteq> TokenNotFound \<longrightarrow>
      priv_create_token self token_id token_data st = (Inl e, st)) \<and>
   (getitem token_data ''expires'' = Inr (JTime t) \<and>
    create_token (persistence self) (store st) token_id token_data = Inl exc_info \<longrightarrow>
      create_token_try self token_id token_data (store st) = Inl exc_info) \<and>
   (getitem token_data ''expires'' = Inr (JStr str) \<and> parse_isotime self str = Some t \<and>
    setitem token_data ''expires'' (JTime t) = Inr normalized \<and>
    create_token (persistence self) (store st) token_id normalized = Inl exc_info \<longrightarrow>
      create_token_try self token_id token_data (store st) = Inl exc_info)"
  by (simp add: priv_create_token_def create_token_try_def bind_result_def)

theorem create_token_race_witness:
  "create_token (persistence (demo_manager True False False))
       [(''a'', JDict [(''expires'', JTime 100)])] ''a'' (JDict [(''expires'', JTime 100)])
     = Inl Conflict \<and>
   priv_create_token (demo_manager True False False) ''a'' (JDict [(''expires'', JTime 100)])
       (demo_state [(''a'', JDict [(''expires'', JTime 100)])] []) =
     (Inr (), demo_state [(''a'', JDict [(''expires'', JTime 100)])] []) \<and>
   priv_create_token (demo_manager True False False) ''down'' (JDict [(''expires'', JTime 100)])
       (demo_state [(''a'', JDict [(''expires'', JTime 100)])] []) =
     (Inl (BackendError ''down''), demo_state [(''a'', JDict [(''expires'', JTime 100)])] []) \<and>
   priv_create_token (demo_manager True False False) ''a'' (JDict [(''expires'', JStr ''100'')])
       (demo_state [(''a'', JDict [(''expires'', JTime 100)])] []) =
     (Inr (), demo_state [(''a'', JDict [(''expires'', JTime 100)])] [])"
proof -
  let ?m = "demo_manager True False False"
  let ?d = "JDict [(''expires'', JTime 100)]"
  let ?st = "demo_state [(''a'', JDict [(''expires'', JTime 100)])] []"
  have x: "getitem ?d ''expires'' = Inr (JTime 100)" by simp
  have xs: "getitem (JDict [(''expires'', JStr ''100'')]) ''expires'' = Inr (JStr ''100'')" by simp
  have ps: "parse_isotime ?m ''100'' = Some 100" by code_simp
  have si: "setitem (JDict [(''expires'', JStr ''100'')]) ''expires'' (JTime 100) = Inr ?d"
    by simp
  have c: "create_token (persistence ?m) (store ?st) ''a'' ?d = Inl Conflict" by code_simp
  have c': "create_token (persistence ?m) [(''a'', ?d)] ''a'' ?d = Inl Conflict" by code_simp
  have d: "create_token (persistence ?m) (store ?st) ''down'' ?d = Inl (BackendError ''down'')"
    by code_simp
  have g: "get_token (persistence ?m) (store ?st) ''a'' = Inr ?d" by code_simp
  have n: "get_token (persistence ?m) (store ?st) ''down'' = Inl TokenNotFound" by code_simp
  note t1 = create_token_race [where self = ?m and token_id = "''a''" and token_data = ?d
      and st = ?st and exc_info = Conflict and existing = ?d and t = 100]
  note t2 = create_token_race [where self = ?m and token_id = "''down''" and token_data = ?d
      and st = ?st and exc_info = "BackendError ''down''" and t = 100]
  note t3 = create_token_race [where self = ?m and token_id = "''a''"
      and token_data = "JDict [(''expires'', JStr ''100'')]" and st = ?st and exc_info = Conflict
      and existing = ?d and t = 100 and str = "''100''" and normalized = ?d]
  have g1: "priv_create_token ?m ''a'' ?d ?st = (Inr (), ?st)"
    using t1 x c g by blast
  have g2: "priv_create_token ?m ''down'' ?d ?st = (Inl (BackendError ''down''), ?st)"
    using t2 x d n by blast
  have g3: "priv_create_token ?m ''a'' (JDict [(''expires'', JStr ''100'')]) ?st = (Inr (), ?st)"
    using t3 xs ps si c g by blast
  from c' g1 g2 g3 show ?thesis by simp
qed

lemma priv_create_token_region:
  "region (snd (priv_create_token self token_id data st)) = region st"
  by (simp add: priv_create_token_def split: sum.splits)

lemma priv_create_token_region_pair:
  "priv_create_token self token_id data st = (r, st') \<Longrightarrow> region st' = region st"
  using priv_create_token_region [of self token_id data st] by simp

lemma issue_v3_persist_region: "region (snd (issue_v3_persist self args st)) = region st"
  by (auto simp: issue_v3_persist_def split: sum.splits prod.splits
      dest: priv_create_token_region_pair)

lemma issue_v3_token_persisted:
  "fst (issue_v3_persist self args st) = Inr (token_id, token_data) \<Longrightarrow>
   issue_v3_token self args st =
     (case issue_v3_cache self token_id token_data (snd (issue_v3_persist self args st)) of
        (Inl e, st2) \<Rightarrow> (Inl e, st2)
      | (Inr u, st2) \<Rightarrow> (Inr (token_id, token_data), st2))"
  by (cases "issue_v3_persist self args st") (simp add: issue_v3_token_def)

text \<open>
  C9. Issuance of a V3 token with cache-on-issue. Once the token is minted (and persisted,
  when the driver needs it), the manager seeds the three V3 caches of the token id and
  asks the version adapter for the V2 view. When the adapter raises \<open>Unauthorized\<close> the
  exception is swallowed: issuance returns the id and the payload, and the V2 cache entry
  of the id is what it was before the call. When the adapter returns a V2 view, that view
  is the V2 cache entry of the id.
\<close>

theorem issue_v3_legacy_view:
  assumes "cache_on_issue self"
    and "fst (issue_v3_persist self args st) = Inr (token_id, token_data)"
  shows
    "(v3_to_v2_token self token_data token_id = Inl Unauthorized \<longrightarrow>
        fst (issue_v3_token self args st) = Inr (token_id, token_data) \<and>
        region (snd (issue_v3_token self args st)) (Memo_validate_v2_token, JStr token_id) =
          region st (Memo_validate_v2_token, JStr token_id)) \<and>
     (v3_to_v2_token self token_data token_id = Inr v2_token_data \<longrightarrow>
        fst (issue_v3_token self args st) = Inr (token_id, token_data) \<and>
        region (snd (issue_v3_token self args st)) (Memo_validate_v2_token, JStr token_id) =
          Some v2_token_data) \<and>
     ((\<exists>v2. v3_to_v2_token self token_data token_id = Inr v2) \<or>
      v3_to_v2_token self token_data token_id = Inl Unauthorized \<longrightarrow>
        region (snd (issue_v3_token self args st)) (Memo_validate_v3_token, JStr token_id) =
          Some token_data \<and>
        region (snd (issue_v3_token self args st)) (Memo_validate_token, JStr token_id) =
          Some token_data \<and>
        region (snd (issue_v3_token self args st))
          (Memo_validate_non_persistent_token, JStr token_id) = Some token_data)"
  using assms(1) issue_v3_persist_region [of self args st]
  by (auto simp: issue_v3_token_persisted [OF assms(2)] issue_v3_cache_def Let_def memo_set_def)

theorem issue_v3_legacy_view_witness:
  "v3_to_v2_token (demo_manager True False True) (demo_trust_token ''200'') ''tok2''
     = Inl Unauthorized \<and>
   fst (issue_v3_token (demo_manager True False True)
       (demo_args (JDict [(''id'', JStr ''tr1''), (''trustee_user_id'', JStr ''u2'')]))
       (demo_state [] [])) = Inr (''tok2'', demo_trust_token ''200'') \<and>
   region (snd (issue_v3_token (demo_manager True False True)
       (demo_args (JDict [(''id'', JStr ''tr1''), (''trustee_user_id'', JStr ''u2'')]))
       (demo_state [] []))) (Memo_validate_v2_token, JStr ''tok2'') = None \<and>
   region (snd (issue_v3_token (demo_manager True False True)
       (demo_args (JDict [(''id'', JStr ''tr1''), (''trustee_user_id'', JStr ''u2'')]))
       (demo_state [] []))) (Memo_validate_v3_token, JStr ''tok2'')
     = Some (demo_trust_token ''200'') \<and>
   fst (issue_v3_token (demo_manager True False True) (demo_args JNone) (demo_state [] []))
     = Inr (''tok1'', demo_token ''200'') \<and>
   region (snd (issue_v3_token (demo_manager True False True) (demo_args JNone)
       (demo_state [] []))) (Memo_validate_v2_token, JStr ''tok1'')
     = Some (JDict [(''access'', JDict [(''token'',
          JDict [(''id'', JStr ''tok1''), (''expires'', JStr ''200'')])])])"
proof -
  let ?m = "demo_manager True False True"
  let ?ta = "demo_args (JDict [(''id'', JStr ''tr1''), (''trustee_user_id'', JStr ''u2'')])"
  let ?st = "demo_state [] [] :: ((string \<times> json) list, json list) state"
  let ?v2 = "JDict [(''access'', JDict [(''token'',
          JDict [(''id'', JStr ''tok1''), (''expires'', JStr ''200'')])])]"
  have c: "cache_on_issue ?m" by code_simp
  have p1: "fst (issue_v3_persist ?m ?ta ?st) = Inr (''tok2'', demo_trust_token ''200'')"
    by code_simp
  have p2: "fst (issue_v3_persist ?m (demo_args JNone) ?st) = Inr (''tok1'', demo_token ''200'')"
    by code_simp
  have a1: "v3_to_v2_token ?m (demo_trust_token ''200'') ''tok2'' = Inl Unauthorized"
    by code_simp
  have a2: "v3_to_v2_token ?m (demo_token ''200'') ''tok1'' = Inr ?v2"
    by code_simp
  have z: "region ?st (Memo_validate_v2_token, JStr ''tok2'') = None"
    by (simp add: demo_state_def)
  from a1 z a2 issue_v3_legacy_view [OF c p1, where v2_token_data = ?v2]
    issue_v3_legacy_view [OF c p2, where v2_token_data = ?v2]
  show ?thesis by simp
qed

section \<open>Properties of revocation and bulk invalidation\<close>










text \<open>
  C7 as stated fails: with \<open>revoke_by_id\<close> and \<open>cache_on_issue\<close> both set, the
  domain callback whose deletion raises (the backend is down) leaves with that exception,
  and the cached token is still in the region.
\<close>

theorem deletion_failure_keeps_cache_counterexample:
  "cache_on_issue (demo_manager True True True) \<and>
   fst (priv_delete_domain_tokens_callback (demo_manager True True True)
       (JDict [(''resource_info'', JStr ''d1'')])
       (memo_set Memo_validate_token (demo_token ''100'') (JStr ''a'')
         (demo_state [(''a'', JDict [(''user'', JStr ''u1'')])] [])))
     = Inl (BackendError ''down'') \<and>
   region (snd (priv_delete_domain_tokens_callback (demo_manager True True True)
       (JDict [(''resource_info'', JStr ''d1'')])
       (memo_set Memo_validate_token (demo_token ''100'') (JStr ''a'')
         (demo_state [(''a'', JDict [(''user'', JStr ''u1'')])] []))))
     (Memo_validate_token, JStr ''a'') = Some (demo_token ''100'')"
  by code_simp













text \<open>
  C8 as stated fails: a token that does not validate does not always make
  \<open>revoke_token\<close> raise \<open>TokenNotFound\<close>. A persisted record of an unknown version makes
  it raise \<open>UnsupportedTokenVersionException\<close>, and a persisted V2 record that the driver
  rejects makes it raise \<open>Unauthorized\<close>.
\<close>

theorem revoke_token_other_failures_counterexample:
  "fst (revoke_token (demo_manager True True True) 50 ''a'' False
       (demo_state [(''a'', demo_record ''v1.0'' (demo_token ''100''))] []))
     = Inl UnsupportedTokenVersionException \<and>
   fst (revoke_token (demo_manager True True True) 50 ''a'' False
       (demo_state [(''a'', JDict [(''token_version'', JStr V2)])] []))
     = Inl Unauthorized \<and>
   fst (validate_token (demo_manager True True True) 50 ''a'' None
       (demo_state [(''a'', JDict [(''token_version'', JStr V2)])] []))
     = Inl Unauthorized"
  by code_simp

section \<open>Properties of the random identifiers\<close>

lemma unat_byte: "unat (a :: 8 word) < 256"
  using unsigned_less [of a, where 'a = nat] by simp

lemma b64_value_char: "i < 64 \<Longrightarrow> b64_value (b64_char i) = Some i"
proof -
  have "\<forall>i \<in> set [0..<64]. b64_value (b64_char i) = Some i"
    by code_simp
  then show "i < 64 \<Longrightarrow> b64_value (b64_char i) = Some i"
    by simp
qed

lemma b64_char_not_pad: "i < 64 \<Longrightarrow> b64_char i \<noteq> CHR ''=''"
proof -
  have "\<forall>i \<in> set [0..<64]. b64_char i \<noteq> CHR ''=''"
    by code_simp
  then show "i < 64 \<Longrightarrow> b64_char i \<noteq> CHR ''=''"
    by simp
qed

lemma a2b_base64_group:
  assumes "s0 < 64" and "s1 < 64" and "s2 < 64" and "s3 < 64"
  shows "a2b_base64 0 l p (b64_char s0 # b64_char s1 # b64_char s2 # b64_char s3 # rest) =
     map_option
       (\<lambda>out. of_nat (s0 * 4 + s1 div 16) # of_nat (s1 mod 16 * 16 + s2 div 4) #
          of_nat (s2 mod 4 * 64 + s3) # out)
       (a2b_base64 0 0 0 rest)"
  using assms
  by (simp add: b64_value_char b64_char_not_pad option.map_comp comp_def)

lemma a2b_base64_one:
  assumes "s0 < 64" and "s1 < 64"
  shows "a2b_base64 0 l p [b64_char s0, b64_char s1, CHR ''='', CHR ''=''] =
     Some [of_nat (s0 * 4 + s1 div 16)]"
  using assms by (simp add: b64_value_char b64_char_not_pad)

lemma a2b_base64_two:
  assumes "s0 < 64" and "s1 < 64" and "s2 < 64"
  shows "a2b_base64 0 l p [b64_char s0, b64_char s1, b64_char s2, CHR ''=''] =
     Some [of_nat (s0 * 4 + s1 div 16), of_nat (s1 mod 16 * 16 + s2 div 4)]"
  using assms by (simp add: b64_value_char b64_char_not_pad)

lemma div_small:
  "(y::nat) < 256 \<Longrightarrow> y div 16 < 16"
  "(y::nat) < 256 \<Longrightarrow> y div 64 < 4"
  "(y::nat) < 256 \<Longrightarrow> y div 4 < 64"
  by (simp_all add: less_mult_imp_div_less)

lemma pack_bound:
  assumes "(k::nat) < m" and "r < n"
  shows "k * n + r < m * n"
proof -
  from assms have "k * n + r < k * n + n" by simp
  also have "\<dots> = Suc k * n" by simp
  also have "\<dots> \<le> m * n" using assms(1) by (intro mult_le_mono1) simp
  finally show ?thesis .
qed

lemma sextet_parts:
  fixes x y :: nat
  assumes "y < 256"
  shows "x mod 4 * 16 + y div 16 < 64" and "x mod 16 * 4 + y div 64 < 64"
    and "(x mod 4 * 16 + y div 16) div 16 = x mod 4"
    and "(x mod 4 * 16 + y div 16) mod 16 = y div 16"
    and "(x mod 16 * 4 + y div 64) div 4 = x mod 16"
    and "(x mod 16 * 4 + y div 64) mod 4 = y div 64"
  using pack_bound [of "x mod 4" 4 "y div 16" 16] pack_bound [of "x mod 16" 16 "y div 64" 4]
    div_small [OF assms]
  by simp_all

lemma sextet_bounds:
  fixes a b c :: "8 word"
  shows "unat a div 4 < 64" and "unat a mod 4 * 16 < 64"
    and "unat a mod 4 * 16 + unat b div 16 < 64" and "unat b mod 16 * 4 < 64"
    and "unat b mod 16 * 4 + unat c div 64 < 64" and "unat c mod 64 < 64"
  using div_small(3) [OF unat_byte [of a]] sextet_parts(1) [OF unat_byte [of b], of "unat a"]
    sextet_parts(2) [OF unat_byte [of c], of "unat b"]
    pack_bound [of "unat a mod 4" 4 0 16] pack_bound [of "unat b mod 16" 16 0 4]
  by simp_all

lemma of_nat_unat_byte: "n = unat a \<Longrightarrow> of_nat n = (a :: 8 word)"
  by simp

lemma byte_first:
  fixes a b :: "8 word"
  shows "of_nat (unat a div 4 * 4 + (unat a mod 4 * 16 + unat b div 16) div 16) = a"
proof (rule of_nat_unat_byte)
  have "unat a div 4 * 4 + (unat a mod 4 * 16 + unat b div 16) div 16 =
      unat a div 4 * 4 + unat a mod 4"
    by (simp only: sextet_parts(3) [OF unat_byte])
  also have "\<dots> = unat a" by (rule div_mult_mod_eq)
  finally show "unat a div 4 * 4 + (unat a mod 4 * 16 + unat b div 16) div 16 = unat a" .
qed

lemma byte_first_last:
  fixes a :: "8 word"
  shows "of_nat (unat a div 4 * 4 + unat a mod 4 * 16 div 16) = a"
proof (rule of_nat_unat_byte)
  have "unat a div 4 * 4 + unat a mod 4 * 16 div 16 = unat a div 4 * 4 + unat a mod 4"
    by simp
  also have "\<dots> = unat a" by (rule div_mult_mod_eq)
  finally show "unat a div 4 * 4 + unat a mod 4 * 16 div 16 = unat a" .
qed

lemma byte_second:
  fixes a b c :: "8 word"
  shows "of_nat ((unat a mod 4 * 16 + unat b div 16) mod 16 * 16 +
      (unat b mod 16 * 4 + unat c div 64) div 4) = b"
proof (rule of_nat_unat_byte)
  have "(unat a mod 4 * 16 + unat b div 16) mod 16 * 16 +
      (unat b mod 16 * 4 + unat c div 64) div 4 = unat b div 16 * 16 + unat b mod 16"
    by (simp only: sextet_parts(4,5) [OF unat_byte])
  also have "\<dots> = unat b" by (rule div_mult_mod_eq)
  finally show "(unat a mod 4 * 16 + unat b div 16) mod 16 * 16 +
      (unat b mod 16 * 4 + unat c div 64) div 4 = unat b" .
qed

lemma byte_second_last:
  fixes a b :: "8 word"
  shows "of_nat ((unat a mod 4 * 16 + unat b div 16) mod 16 * 16 + unat b mod 16 * 4 div 4) = b"
proof (rule of_nat_unat_byte)
  have "unat b mod 16 * 4 div 4 = unat b mod 16" by simp
  then have "(unat a mod 4 * 16 + unat b div 16) mod 16 * 16 + unat b mod 16 * 4 div 4 =
      unat b div 16 * 16 + unat b mod 16"
    by (simp only: sextet_parts(4) [OF unat_byte])
  also have "\<dots> = unat b" by (rule div_mult_mod_eq)
  finally show "(unat a mod 4 * 16 + unat b div 16) mod 16 * 16 + unat b mod 16 * 4 div 4 =
      unat b" .
qed

lemma byte_third:
  fixes b c :: "8 word"
  shows "of_nat ((unat b mod 16 * 4 + unat c div 64) mod 4 * 64 + unat c mod 64) = c"
proof (rule of_nat_unat_byte)
  have "(unat b mod 16 * 4 + unat c div 64) mod 4 * 64 + unat c mod 64 =
      unat c div 64 * 64 + unat c mod 64"
    by (simp only: sextet_parts(6) [OF unat_byte])
  also have "\<dots> = unat c" by (rule div_mult_mod_eq)
  finally show "(unat b mod 16 * 4 + unat c div 64) mod 4 * 64 + unat c mod 64 = unat c" .
qed

lemma urlsafe_alphabet_ascii: "list_all (\<lambda>c. (of_char c :: nat) < 128) urlsafe_alphabet"
  by (simp add: urlsafe_alphabet_def)

lemma urlsafe_alphabet_length: "length urlsafe_alphabet = 64"
  by (simp add: urlsafe_alphabet_def)

lemma b64_char_ascii: "(of_char (b64_char i) :: nat) < 128"
proof -
  have "b64_char i \<in> set urlsafe_alphabet"
    unfolding b64_char_def by (rule nth_mem) (simp add: urlsafe_alphabet_length)
  with urlsafe_alphabet_ascii show ?thesis
    by (simp add: list_all_iff)
qed

lemma urlsafe_b64encode_ascii:
  "list_all (\<lambda>c. (of_char c :: nat) < 128) (urlsafe_b64encode bs)"
  by (induction bs rule: urlsafe_b64encode.induct) (simp_all add: b64_char_ascii)

lemma a2b_base64_encode: "a2b_base64 0 0 0 (urlsafe_b64encode bs) = Some bs"
proof (induction bs rule: urlsafe_b64encode.induct)
  case 1
  show ?case by simp
next
  case (2 a)
  show ?case
    by (simp only: urlsafe_b64encode.simps a2b_base64_one sextet_bounds byte_first_last)
next
  case (3 a b)
  show ?case
    by (simp only: urlsafe_b64encode.simps a2b_base64_two sextet_bounds byte_first
        byte_second_last)
next
  case (4 a b c bs)
  then show ?case
    by (simp only: urlsafe_b64encode.simps append_Cons append_Nil a2b_base64_group
        sextet_bounds byte_first byte_second byte_third option.map)
qed

lemma urlsafe_b64decode_encode: "urlsafe_b64decode (urlsafe_b64encode bs) = Some bs"
  by (simp only: urlsafe_b64decode_def urlsafe_b64encode_ascii a2b_base64_encode if_True)

lemma urlsafe_b64encode_length: "length (urlsafe_b64encode bs) = 4 * ((length bs + 2) div 3)"
proof (induction bs rule: urlsafe_b64encode.induct)
  case (4 a b c bs)
  have "(length (a # b # c # bs) + 2) div 3 = (length bs + 2 + 3) div 3"
    by simp
  also have "\<dots> = (length bs + 2) div 3 + 1"
    by (rule div_add_self2) simp
  finally show ?case using 4 by simp
qed simp_all

lemma urlsafe_b64encode_padding:
  "length bs mod 3 = 1 \<Longrightarrow> \<exists>pre. urlsafe_b64encode bs = pre @ ''==''"
proof (induction bs rule: urlsafe_b64encode.induct)
  case 1
  then show ?case by simp
next
  case (2 a)
  show ?case by simp
next
  case (3 a b)
  then show ?case by simp
next
  case (4 a b c bs)
  then have "length bs mod 3 = 1" by simp
  with 4 obtain pre where "urlsafe_b64encode bs = pre @ ''==''" by blast
  then have "urlsafe_b64encode (a # b # c # bs) =
      ([b64_char (unat a div 4), b64_char (unat a mod 4 * 16 + unat b div 16),
        b64_char (unat b mod 16 * 4 + unat c div 64), b64_char (unat c mod 64)] @ pre) @ ''==''"
    by simp
  then show ?case by blast
qed

text \<open>
  C10. For every 16 bytes \<open>b\<close> (the bytes of a UUID), the identifier
  \<open>random_urlsafe_str\<close> makes of them has 22 characters, and
  \<open>random_urlsafe_str_to_bytes\<close> recovers exactly \<open>b\<close> from it: putting the padding
  \<open>==\<close> back undoes the truncation by two characters.
\<close>

theorem random_urlsafe_str_roundtrip:
  assumes "length uuid_bytes = 16"
  shows "random_urlsafe_str_to_bytes (random_urlsafe_str uuid_bytes) = Some uuid_bytes \<and>
     length (random_urlsafe_str uuid_bytes) = 22 \<and>
     random_urlsafe_str uuid_bytes @ ''=='' = urlsafe_b64encode uuid_bytes"
proof -
  from assms have "length uuid_bytes mod 3 = 1" by simp
  then obtain pre where pre: "urlsafe_b64encode uuid_bytes = pre @ ''==''"
    using urlsafe_b64encode_padding by blast
  then have s: "random_urlsafe_str uuid_bytes = pre"
    by (simp add: random_urlsafe_str_def Let_def)
  have "length (urlsafe_b64encode uuid_bytes) = 24"
    using assms by (simp add: urlsafe_b64encode_length)
  with pre have l: "length pre = 22" by simp
  have "random_urlsafe_str_to_bytes (random_urlsafe_str uuid_bytes) =
      urlsafe_b64decode (urlsafe_b64encode uuid_bytes)"
    by (simp only: random_urlsafe_str_to_bytes_def s pre)
  then have "random_urlsafe_str_to_bytes (random_urlsafe_str uuid_bytes) = Some uuid_bytes"
    by (simp only: urlsafe_b64decode_encode)
  moreover have "length (random_urlsafe_str uuid_bytes) = 22"
    by (simp only: s l)
  moreover have "random_urlsafe_str uuid_bytes @ ''=='' = urlsafe_b64encode uuid_bytes"
    by (simp only: s pre)
  ultimately show ?thesis by (intro conjI)
qed

theorem random_urlsafe_str_roundtrip_witness:
  "length [0, 1, 2, 3, 4, 5, 6, 7, 8, 9, 250, 251, 252, 253, 254, 255 :: 8 word] = 16 \<and>
   random_urlsafe_str [0, 1, 2, 3, 4, 5, 6, 7, 8, 9, 250, 251, 252, 253, 254, 255]
     = ''AAECAwQFBgcICfr7_P3-_w'' \<and>
   random_urlsafe_str_to_bytes ''AAECAwQFBgcICfr7_P3-_w''
     = Some [0, 1, 2, 3, 4, 5, 6, 7, 8, 9, 250, 251, 252, 253, 254, 255]"
proof -
  let ?b = "[0, 1, 2, 3, 4, 5, 6, 7, 8, 9, 250, 251, 252, 253, 254, 255 :: 8 word]"
  have l: "length ?b = 16" by simp
  have e: "random_urlsafe_str ?b = ''AAECAwQFBgcICfr7_P3-_w''" by code_simp
  from random_urlsafe_str_roundtrip [OF l]
  have "random_urlsafe_str_to_bytes (random_urlsafe_str ?b) = Some ?b"
    by (rule conjunct1)
  then have "random_urlsafe_str_to_bytes ''AAECAwQFBgcICfr7_P3-_w'' = Some ?b"
    by (simp only: e)
  with l e show ?thesis by (intro conjI)
qed

end
